theory Spec2Isabelle
  imports Complex_Main "HOL-Library.Word" "HOL-Library.Signed_Division"
    "HOL-Library.Char_ord" "HOL-Library.List_Lexorder"
begin

section \<open>Go's values and library functions\<close>

text \<open>
  The market service and the pusher are Go code. Their values are modelled as follows.
  \<^item> \<open>int64\<close> is a 64-bit word read as two's complement: addition wraps, comparison and
    division are signed, division truncates towards zero.
  \<^item> \<open>float64\<close> is modelled by the real number a float denotes, with exact arithmetic:
    rounding error, NaN, the infinities and the sign of zero are outside the model.
  \<^item> \<open>int\<close>, \<open>time.Duration\<close> and Unix timestamps are integers: the values that occur
    (counts, nanoseconds of a few seconds, seconds of four-digit years) are far from the
    ends of the 64-bit range.
  \<^item> A string is a byte string; the Chinese texts of the source are their UTF-8 bytes.
  \<^item> An error return and a run-time panic are the two kinds of failure of a call.
\<close>

type_synonym int64 = "64 word"

datatype error =
  Failure string  \<comment> \<open>an \<open>error\<close> value returned by a call\<close>
| Panic           \<comment> \<open>a run-time panic: an index or a slice bound out of range\<close>

text \<open>Signed comparison and Go's \<open>/\<close> on \<open>int64\<close>.\<close>

definition gt64 :: "int64 \<Rightarrow> int64 \<Rightarrow> bool" where
  "gt64 a b \<longleftrightarrow> sint b < sint a"

definition div64 :: "int64 \<Rightarrow> int64 \<Rightarrow> int64" where
  "div64 a b = word_of_int (sint a sdiv sint b)"

text \<open>\<open>float64(n)\<close> of an \<open>int64\<close>.\<close>

definition float64 :: "int64 \<Rightarrow> real" where
  "float64 n = of_int (sint n)"

subsection \<open>Package \<open>strings\<close>, \<open>slices\<close> and \<open>sort\<close>\<close>

text \<open>\<open>strings.Join\<close>.\<close>

fun Join :: "string list \<Rightarrow> string \<Rightarrow> string" where
  "Join [] sep = []"
| "Join [x] sep = x"
| "Join (x # y # ys) sep = x @ sep @ Join (y # ys) sep"

text \<open>
  \<open>strings.Split\<close> with a one-byte separator: the fields between the separators, one
  field more than there are separators. \<open>splitAcc\<close> carries the field being read.
\<close>

fun splitAcc :: "char \<Rightarrow> string \<Rightarrow> string \<Rightarrow> string list" where
  "splitAcc sep cur [] = [cur]"
| "splitAcc sep cur (c # cs) =
     (if c = sep then cur # splitAcc sep [] cs else splitAcc sep (cur @ [c]) cs)"

definition Split :: "string \<Rightarrow> char \<Rightarrow> string list" where
  "Split s sep = splitAcc sep [] s"

text \<open>\<open>slices.Contains\<close>.\<close>

definition Contains :: "'a list \<Rightarrow> 'a \<Rightarrow> bool" where
  "Contains xs x \<longleftrightarrow> x \<in> set xs"

text \<open>\<open>sort.Strings\<close> orders byte strings lexicographically.\<close>

definition sort_Strings :: "string list \<Rightarrow> string list" where
  "sort_Strings xs = sort xs"

subsection \<open>Package \<open>fmt\<close>\<close>

definition digitChar :: "nat \<Rightarrow> char" where
  "digitChar d = ''0123456789'' ! d"

fun showNat :: "nat \<Rightarrow> string" where
  "showNat n = (if n < 10 then [digitChar n] else showNat (n div 10) @ [digitChar (n mod 10)])"

declare showNat.simps [simp del]

text \<open>The verb \<open>%d\<close>.\<close>

definition Sprintf_d :: "int \<Rightarrow> string" where
  "Sprintf_d i = (if i < 0 then ''-'' else []) @ showNat (nat \<bar>i\<bar>)"

text \<open>
  The verbs \<open>%.2f\<close> and \<open>%.0f\<close> print the decimal nearest to the value, a tie going to
  the even last digit, with the sign of a negative value kept even when every printed
  digit is zero.
\<close>

definition roundHalfEven :: "real \<Rightarrow> int" where
  "roundHalfEven y =
     (let f = \<lfloor>y\<rfloor>; d = y - of_int f
      in if d < 1 / 2 then f else if 1 / 2 < d then f + 1 else if even f then f else f + 1)"

definition hundredths :: "real \<Rightarrow> nat" where
  "hundredths x = nat (roundHalfEven (\<bar>x\<bar> * 100))"

definition units :: "real \<Rightarrow> nat" where
  "units x = nat (roundHalfEven \<bar>x\<bar>)"

definition Sprintf_2f :: "real \<Rightarrow> string" where
  "Sprintf_2f x =
     (let n = hundredths x
      in (if x < 0 then ''-'' else []) @ showNat (n div 100) @ ''.'' @
         [digitChar (n mod 100 div 10), digitChar (n mod 10)])"

definition Sprintf_0f :: "real \<Rightarrow> string" where
  "Sprintf_0f x = (if x < 0 then ''-'' else []) @ showNat (units x)"

subsection \<open>Package \<open>time\<close>\<close>

text \<open>
  A \<open>time.Time\<close> is an instant, in nanoseconds since the Unix epoch, seen in a zone with
  a fixed offset in seconds east of UTC. The calendar fields are those of the proleptic
  Gregorian calendar. \<open>time.Since\<close> is a difference of instants.
\<close>

record GoTime =
  unixNano :: int
  zoneOffset :: int

definition Second :: int where
  "Second = 1000000000"

definition Hour :: int where
  "Hour = 3600 * Second"

definition In :: "GoTime \<Rightarrow> int \<Rightarrow> GoTime" where
  "In t loc = t\<lparr>zoneOffset := loc\<rparr>"

definition localSeconds :: "GoTime \<Rightarrow> int" where
  "localSeconds t = unixNano t div Second + zoneOffset t"

definition localDays :: "GoTime \<Rightarrow> int" where
  "localDays t = localSeconds t div 86400"

definition Time_Hour :: "GoTime \<Rightarrow> int" where
  "Time_Hour t = localSeconds t mod 86400 div 3600"

definition Time_Minute :: "GoTime \<Rightarrow> int" where
  "Time_Minute t = localSeconds t mod 3600 div 60"

text \<open>\<open>Weekday\<close>: Sunday is 0 and Saturday is 6; 1 January 1970 was a Thursday.\<close>

definition Saturday :: int where
  "Saturday = 6"

definition Sunday :: int where
  "Sunday = 0"

definition Time_Weekday :: "GoTime \<Rightarrow> int" where
  "Time_Weekday t = (localDays t + 4) mod 7"

text \<open>The civil date of a day number (days since 1 January 1970): year, month, day.\<close>

definition civil :: "int \<Rightarrow> int \<times> int \<times> int" where
  "civil z0 =
     (let z = z0 + 719468;
          era = z div 146097;
          doe = z mod 146097;
          yoe = (doe - doe div 1460 + doe div 36524 - doe div 146096) div 365;
          doy = doe - (365 * yoe + yoe div 4 - yoe div 100);
          mp = (5 * doy + 2) div 153;
          d = doy - (153 * mp + 2) div 5 + 1;
          m = (if mp < 10 then mp + 3 else mp - 9);
          y = yoe + era * 400 + (if m \<le> 2 then 1 else 0)
      in (y, m, d))"

definition Time_Year :: "GoTime \<Rightarrow> int" where
  "Time_Year t = fst (civil (localDays t))"

definition padZero :: "nat \<Rightarrow> string \<Rightarrow> string" where
  "padZero k s = replicate (k - length s) CHR ''0'' @ s"

text \<open>\<open>t.Format("2006-01-02")\<close>, for the years 0 to 9999.\<close>

definition Format_date :: "GoTime \<Rightarrow> string" where
  "Format_date t =
     (case civil (localDays t) of (y, m, d) \<Rightarrow>
        padZero 4 (showNat (nat y)) @ ''-'' @ padZero 2 (showNat (nat m)) @ ''-'' @
        padZero 2 (showNat (nat d)))"

text \<open>\<open>t.AddDate(0, 0, days)\<close>: the same time of day, \<open>days\<close> days later.\<close>

definition AddDate_days :: "GoTime \<Rightarrow> int \<Rightarrow> GoTime" where
  "AddDate_days t days = t\<lparr>unixNano := unixNano t + days * 86400 * Second\<rparr>"

subsection \<open>Package \<open>strconv\<close> and \<open>time.Parse\<close>\<close>

text \<open>
  The parsers of the standard library are parameters of the model. \<open>ParseFloat s\<close> and
  \<open>ParseInt s\<close> are the values that \<open>strconv.ParseFloat(s, 64)\<close> and
  \<open>strconv.ParseInt(s, 10, 64)\<close> return beside their error, which the code always drops:
  0 for a string that is no number. \<open>ParseUnix s\<close> is the Unix time of
  \<open>time.Parse("2006-01-02 15:04:05", s)\<close>, \<open>None\<close> when \<open>time.Parse\<close> fails.
\<close>

record stdlib =
  ParseFloat :: "string \<Rightarrow> real"
  ParseInt :: "string \<Rightarrow> int64"
  ParseUnix :: "string \<Rightarrow> int option"

text \<open>
  One instance, for running the model: plain decimal numerals, as the quote source sends
  them. \<open>readDigits\<close> reads a digit string; \<open>plainFloat\<close> reads \<open>[-]digits[.digits]\<close>;
  \<open>plainInt\<close> reads \<open>[-]digits\<close>, and \<open>ParseInt\<close> returns the nearest end of the range
  for a numeral outside it.
\<close>

definition isDigit :: "char \<Rightarrow> bool" where
  "isDigit c \<longleftrightarrow> CHR ''0'' \<le> c \<and> c \<le> CHR ''9''"

definition digitVal :: "char \<Rightarrow> nat" where
  "digitVal c = of_char c - 48"

definition readDigits :: "string \<Rightarrow> nat" where
  "readDigits s = foldl (\<lambda>a c. 10 * a + digitVal c) 0 s"

definition isDigits :: "string \<Rightarrow> bool" where
  "isDigits s \<longleftrightarrow> s \<noteq> [] \<and> list_all isDigit s"

definition plainUnsigned :: "string \<Rightarrow> real" where
  "plainUnsigned s =
     (let ip = takeWhile isDigit s; rest = dropWhile isDigit s
      in if ip = [] then 0
         else if rest = [] then of_nat (readDigits ip)
         else if hd rest = CHR ''.'' \<and> isDigits (tl rest)
           then of_nat (readDigits ip) + of_nat (readDigits (tl rest)) / 10 ^ length (tl rest)
         else 0)"

definition plainFloat :: "string \<Rightarrow> real" where
  "plainFloat s =
     (case s of [] \<Rightarrow> 0
      | c # cs \<Rightarrow> if c = CHR ''-'' then - plainUnsigned cs else plainUnsigned s)"

definition clamp64 :: "int \<Rightarrow> int64" where
  "clamp64 i = word_of_int (max (- (2 ^ 63)) (min (2 ^ 63 - 1) i))"

definition plainInt :: "string \<Rightarrow> int64" where
  "plainInt s =
     (case s of [] \<Rightarrow> 0
      | c # cs \<Rightarrow>
          if c = CHR ''-'' then (if isDigits cs then clamp64 (- int (readDigits cs)) else 0)
          else if isDigits s then clamp64 (int (readDigits s)) else 0)"

text \<open>
  The instance knows the Unix time of two minute buckets of 2 January 2024 and rejects
  every other string.
\<close>

definition plainUnix :: "string \<Rightarrow> int option" where
  "plainUnix s =
     (if s = ''2024-01-02 09:31:00'' then Some 1704187860
      else if s = ''2024-01-02 09:32:00'' then Some 1704187920
      else None)"

definition plain :: stdlib where
  "plain = \<lparr>ParseFloat = plainFloat, ParseInt = plainInt, ParseUnix = plainUnix\<rparr>"

section \<open>Data model\<close>

text \<open>
  Modelled from the spec: the declarations of package \<open>models\<close> (\<open>Stock\<close>,
  \<open>OrderBookItem\<close>, \<open>OrderBook\<close>, \<open>KLineData\<close>) are not among the sources. The records
  have the fields that the market service assigns and reads, with the types of the
  values assigned: prices and amounts are \<open>float64\<close>, volumes and sizes are \<open>int64\<close>. The
  candle's \<open>Open\<close>, \<open>High\<close>, \<open>Low\<close>, \<open>Volume\<close> and \<open>Amount\<close> carry the prefix \<open>K\<close> here, the
  names being taken by the quote.
\<close>

record Stock =
  Symbol :: string
  Name :: string
  Price :: real
  Open :: real
  High :: real
  Low :: real
  PreClose :: real
  Change :: real
  ChangePercent :: real
  Volume :: int64
  Amount :: real

record OrderBookItem =
  ItemPrice :: real
  Size :: int64
  Total :: int64
  Percent :: real

record OrderBook =
  Bids :: "OrderBookItem list"
  Asks :: "OrderBookItem list"

record KLineData =
  Time :: string
  KOpen :: real
  KHigh :: real
  KLow :: real
  Close :: real
  KVolume :: int64
  KAmount :: real
  MA5 :: real
  MA10 :: real
  MA20 :: real
  Avg :: real

text \<open>\<open>StockWithOrderBook\<close>: the embedded quote and the order book.\<close>

record StockWithOrderBook =
  EmbeddedStock :: Stock
  BookOf :: OrderBook

text \<open>\<open>stockCache\<close> and \<open>klineCache\<close>: a payload and the time it was stored.\<close>

record 'a cacheEntry =
  data :: 'a
  timestamp :: GoTime

type_synonym stockCache = "StockWithOrderBook list cacheEntry"
type_synonym klineCache = "KLineData list cacheEntry"

text \<open>
  \<open>MarketService\<close>: the two caches and their lifetimes. The HTTP client is the upstream
  below; the locks carry no data.
\<close>

record MarketService =
  cache :: "string \<rightharpoonup> stockCache"
  cacheTTL :: int
  klineCache :: "string \<rightharpoonup> klineCache"
  klineCacheTTL :: int

definition NewMarketService :: MarketService where
  "NewMarketService =
     \<lparr>cache = Map.empty, cacheTTL = 2 * Second,
      klineCache = Map.empty, klineCacheTTL = 2 * Second\<rparr>"

text \<open>
  The candle record of the quote source, as \<open>json.Unmarshal\<close> fills it: six numbers as
  strings, three moving averages as numbers.
\<close>

record sinaKLine =
  Day :: string
  RawOpen :: string
  RawHigh :: string
  RawLow :: string
  RawClose :: string
  RawVolume :: string
  RawAmount :: string
  MAPrice5 :: real
  MAPrice10 :: real
  MAPrice20 :: real

text \<open>
  The holiday document of one year, as \<open>json.Unmarshal\<close> fills it. The name of a day
  is \<open>DayName\<close> here, \<open>Name\<close> being taken by the quote.
\<close>

record holidayDay =
  DayName :: string
  Date :: string
  IsOffDay :: bool

record holidayData =
  Year :: int
  Days :: "holidayDay list"

text \<open>
  The upstream is what the network answers. \<open>sinaQuotes list\<close> is the answer to the quote
  request for the comma-joined code list: an error of the request, or the matches of
  \<open>sinaStockRegex\<close> in the decoded body, each the code and the quoted payload.
  \<open>sinaKLines code scale datalen\<close> is the answer to the candle request: an error of the
  request or of \<open>json.Unmarshal\<close>, or the decoded array. \<open>holidayCDN year\<close> is the
  answer of the holiday CDN: an error of the request or of decoding, or the document.
\<close>

record Upstream =
  sinaQuotes :: "string \<Rightarrow> error + (string \<times> string) list"
  sinaKLines :: "string \<Rightarrow> string \<Rightarrow> int \<Rightarrow> error + sinaKLine list"
  holidayCDN :: "int \<Rightarrow> error + holidayData"

datatype Request =
  QuoteRequest string
| KLineRequest string string int

text \<open>
  The readings of the clock during one cached read: at the freshness check, during the
  fetch, and when the entry is stored.
\<close>

record Clock =
  atCheck :: GoTime
  atFetch :: GoTime
  atStore :: GoTime

definition Since :: "GoTime \<Rightarrow> GoTime \<Rightarrow> int" where
  "Since now t = unixNano now - unixNano t"

section \<open>Market service: quotes and order book\<close>

text \<open>
  \<open>parseStockFields\<close>: the fields are read at fixed indices, the highest being 9; an
  index past the end of \<open>parts\<close> panics.
\<close>

definition parseStockFields :: "stdlib \<Rightarrow> string \<Rightarrow> string list \<Rightarrow> error + Stock" where
  "parseStockFields sl code parts =
     (if length parts < 10 then Inl Panic
      else
        let price = ParseFloat sl (parts ! 3);
            open = ParseFloat sl (parts ! 1);
            high = ParseFloat sl (parts ! 4);
            low = ParseFloat sl (parts ! 5);
            preClose = ParseFloat sl (parts ! 2);
            volume = ParseInt sl (parts ! 8);
            amount = ParseFloat sl (parts ! 9);
            change = price - preClose;
            changePercent = (if preClose > 0 then (change / preClose) * 100 else 0)
        in Inr \<lparr>Symbol = code, Name = parts ! 0, Price = price, Open = open, High = high,
                Low = low, PreClose = preClose, Change = change,
                ChangePercent = changePercent, Volume = volume, Amount = amount\<rparr>)"

text \<open>
  \<open>calculateOrderBookTotals\<close>: the largest size (from 0, signed), then the running total
  and the share of the largest size for each level.
\<close>

definition maxSizeOf :: "OrderBookItem list \<Rightarrow> int64" where
  "maxSizeOf items = foldl (\<lambda>m item. if gt64 (Size item) m then Size item else m) 0 items"

fun totalsLoop :: "int64 \<Rightarrow> int64 \<Rightarrow> OrderBookItem list \<Rightarrow> OrderBookItem list" where
  "totalsLoop maxSize sofar [] = []"
| "totalsLoop maxSize sofar (item # items) =
     (let total' = sofar + Size item;
          item' = item\<lparr>Total := total'\<rparr>;
          item'' = (if gt64 maxSize 0
                    then item'\<lparr>Percent := float64 (Size item) / float64 maxSize\<rparr>
                    else item')
      in item'' # totalsLoop maxSize total' items)"

definition calculateOrderBookTotals :: "OrderBookItem list \<Rightarrow> OrderBookItem list" where
  "calculateOrderBookTotals items =
     (if items = [] then items else totalsLoop (maxSizeOf items) 0 items)"

text \<open>
  The body of both level-parsing iterations of \<open>parseStockWithOrderBook\<close>, for level \<open>i\<close> of the side
  whose first volume field is at index \<open>base\<close> (10 for the bids, 20 for the asks): the
  level is appended when its price is positive.
\<close>

definition levelStep ::
  "stdlib \<Rightarrow> string list \<Rightarrow> nat \<Rightarrow> OrderBookItem list \<Rightarrow> nat \<Rightarrow> OrderBookItem list" where
  "levelStep sl parts base items i =
     (let volIdx = base + i * 2; priceIdx = base + 1 + i * 2
      in if priceIdx < length parts
         then
           let vol = ParseInt sl (parts ! volIdx);
               price = ParseFloat sl (parts ! priceIdx)
           in if price > 0
              then items @ [\<lparr>ItemPrice = price, Size = div64 vol 100, Total = 0, Percent = 0\<rparr>]
              else items
         else items)"

definition parseBids :: "stdlib \<Rightarrow> string list \<Rightarrow> OrderBookItem list" where
  "parseBids sl parts =
     (if length parts \<ge> 20 then foldl (levelStep sl parts 10) [] [0..<5] else [])"

definition parseAsks :: "stdlib \<Rightarrow> string list \<Rightarrow> OrderBookItem list" where
  "parseAsks sl parts =
     (if length parts \<ge> 30 then foldl (levelStep sl parts 20) [] [0..<5] else [])"

text \<open>
  For stating what a parsed side holds: the price and the size that the record gives for
  level \<open>i\<close> of the side at \<open>base\<close>, the level as the loop appends it, and the priced
  levels of a side, which are its five levels without those whose price is not positive.
\<close>

definition levelPrice :: "stdlib \<Rightarrow> string list \<Rightarrow> nat \<Rightarrow> nat \<Rightarrow> real" where
  "levelPrice sl parts base i = ParseFloat sl (parts ! (base + 1 + i * 2))"

definition levelSize :: "stdlib \<Rightarrow> string list \<Rightarrow> nat \<Rightarrow> nat \<Rightarrow> int64" where
  "levelSize sl parts base i = div64 (ParseInt sl (parts ! (base + i * 2))) 100"

definition priceAndSize :: "OrderBookItem \<Rightarrow> real \<times> int64" where
  "priceAndSize item = (ItemPrice item, Size item)"

definition pricedLevels :: "stdlib \<Rightarrow> string list \<Rightarrow> nat \<Rightarrow> (real \<times> int64) list" where
  "pricedLevels sl parts base =
     map (\<lambda>i. (levelPrice sl parts base i, levelSize sl parts base i))
       (filter (\<lambda>i. levelPrice sl parts base i > 0) [0..<5])"

definition rawLevel :: "stdlib \<Rightarrow> string list \<Rightarrow> nat \<Rightarrow> nat \<Rightarrow> OrderBookItem" where
  "rawLevel sl parts base i =
     \<lparr>ItemPrice = levelPrice sl parts base i, Size = levelSize sl parts base i,
      Total = 0, Percent = 0\<rparr>"

definition parseStockWithOrderBook ::
  "stdlib \<Rightarrow> string \<Rightarrow> string list \<Rightarrow> error + StockWithOrderBook" where
  "parseStockWithOrderBook sl code parts =
     (case parseStockFields sl code parts of
        Inl e \<Rightarrow> Inl e
      | Inr stock \<Rightarrow>
          Inr \<lparr>EmbeddedStock = stock,
               BookOf = \<lparr>Bids = calculateOrderBookTotals (parseBids sl parts),
                         Asks = calculateOrderBookTotals (parseAsks sl parts)\<rparr>\<rparr>)"

text \<open>
  \<open>parseSinaStockDataWithOrderBook\<close>, on the matches of the regular expression: a match
  with an empty payload or fewer than 32 fields is skipped.
\<close>

fun parseSinaStockDataWithOrderBook ::
  "stdlib \<Rightarrow> (string \<times> string) list \<Rightarrow> error + StockWithOrderBook list" where
  "parseSinaStockDataWithOrderBook sl [] = Inr []"
| "parseSinaStockDataWithOrderBook sl ((code, payload) # matches) =
     (if payload = [] then parseSinaStockDataWithOrderBook sl matches
      else
        let parts = Split payload CHR '',''
        in if length parts < 32 then parseSinaStockDataWithOrderBook sl matches
           else
             (case parseStockWithOrderBook sl code parts of
                Inl e \<Rightarrow> Inl e
              | Inr stock \<Rightarrow>
                  (case parseSinaStockDataWithOrderBook sl matches of
                     Inl e \<Rightarrow> Inl e
                   | Inr stocks \<Rightarrow> Inr (stock # stocks))))"

definition fetchStockDataWithOrderBook ::
  "stdlib \<Rightarrow> Upstream \<Rightarrow> string list \<Rightarrow> error + StockWithOrderBook list" where
  "fetchStockDataWithOrderBook sl up codes =
     (case sinaQuotes up (Join codes '','') of
        Inl e \<Rightarrow> Inl e
      | Inr matches \<Rightarrow> parseSinaStockDataWithOrderBook sl matches)"

text \<open>
  \<open>GetStockDataWithOrderBook\<close> returns its result, the service after the call and the
  requests it sent upstream.
\<close>

definition stockCacheKey :: "string list \<Rightarrow> string" where
  "stockCacheKey codes = Join (sort_Strings codes) '',''"

definition GetStockDataWithOrderBook ::
  "stdlib \<Rightarrow> Upstream \<Rightarrow> Clock \<Rightarrow> MarketService \<Rightarrow> string list \<Rightarrow>
   (error + StockWithOrderBook list) \<times> MarketService \<times> Request list" where
  "GetStockDataWithOrderBook sl up clk ms codes =
     (if codes = [] then (Inr [], ms, [])
      else
        let cacheKey = stockCacheKey codes;
            hit = (case cache ms cacheKey of
                     None \<Rightarrow> None
                   | Some cached \<Rightarrow>
                       if Since (atCheck clk) (timestamp cached) < cacheTTL ms
                       then Some (data cached) else None)
        in case hit of
             Some d \<Rightarrow> (Inr d, ms, [])
           | None \<Rightarrow>
               (case fetchStockDataWithOrderBook sl up codes of
                  Inl e \<Rightarrow> (Inl e, ms, [QuoteRequest (Join codes '','')])
                | Inr d \<Rightarrow>
                    (Inr d,
                     ms\<lparr>cache := (cache ms)(cacheKey \<mapsto> \<lparr>data = d, timestamp = atStore clk\<rparr>)\<rparr>,
                     [QuoteRequest (Join codes '','')])))"

text \<open>
  \<open>GetRealOrderBook\<close>: the book of the first record; the empty book with the call's
  error, which is nil when the call returned no record.
\<close>

definition emptyOrderBook :: OrderBook where
  "emptyOrderBook = \<lparr>Bids = [], Asks = []\<rparr>"

definition GetRealOrderBook ::
  "stdlib \<Rightarrow> Upstream \<Rightarrow> Clock \<Rightarrow> MarketService \<Rightarrow> string \<Rightarrow>
   (error + OrderBook) \<times> MarketService \<times> Request list" where
  "GetRealOrderBook sl up clk ms code =
     (case GetStockDataWithOrderBook sl up clk ms [code] of
        (Inl e, ms', reqs) \<Rightarrow> (Inl e, ms', reqs)
      | (Inr [], ms', reqs) \<Rightarrow> (Inr emptyOrderBook, ms', reqs)
      | (Inr (d # ds), ms', reqs) \<Rightarrow> (Inr (BookOf d), ms', reqs))"

section \<open>Market service: candles\<close>

definition periodToScale :: "string \<Rightarrow> string" where
  "periodToScale period =
     (if period = ''1m'' then ''1''
      else if period = ''1d'' then ''240''
      else if period = ''1w'' then ''1680''
      else if period = ''1mo'' then ''7200''
      else ''240'')"

definition parseKLineItem :: "stdlib \<Rightarrow> sinaKLine \<Rightarrow> KLineData" where
  "parseKLineItem sl item =
     \<lparr>Time = Day item,
      KOpen = ParseFloat sl (RawOpen item),
      KHigh = ParseFloat sl (RawHigh item),
      KLow = ParseFloat sl (RawLow item),
      Close = ParseFloat sl (RawClose item),
      KVolume = ParseInt sl (RawVolume item),
      KAmount = ParseFloat sl (RawAmount item),
      MA5 = MAPrice5 item, MA10 = MAPrice10 item, MA20 = MAPrice20 item,
      Avg = 0\<rparr>"

definition parseKLineData :: "stdlib \<Rightarrow> sinaKLine list \<Rightarrow> KLineData list" where
  "parseKLineData sl sinaData = map (parseKLineItem sl) sinaData"

text \<open>
  \<open>filterTodayKLines\<close>: the candles of today's date; when there is none, those of the
  date of the last candle, whose \<open>Time[:10]\<close> panics on a time shorter than ten bytes.
\<close>

definition onDay :: "string \<Rightarrow> KLineData \<Rightarrow> bool" where
  "onDay day k \<longleftrightarrow> length (Time k) \<ge> 10 \<and> take 10 (Time k) = day"

definition filterTodayKLines :: "GoTime \<Rightarrow> KLineData list \<Rightarrow> error + KLineData list" where
  "filterTodayKLines now klines =
     (if klines = [] then Inr klines
      else
        let today = Format_date now;
            result = filter (onDay today) klines
        in if result = []
           then (if length (Time (last klines)) < 10 then Inl Panic
                 else Inr (filter (onDay (take 10 (Time (last klines)))) klines))
           else Inr result)"

text \<open>\<open>calculateAvgLine\<close>: the running amount over the running volume.\<close>

fun avgLoop :: "real \<Rightarrow> int64 \<Rightarrow> KLineData list \<Rightarrow> KLineData list" where
  "avgLoop totalAmount totalVolume [] = []"
| "avgLoop totalAmount totalVolume (k # ks) =
     (let totalAmount' = totalAmount + KAmount k;
          totalVolume' = totalVolume + KVolume k;
          k' = (if gt64 totalVolume' 0 then k\<lparr>Avg := totalAmount' / float64 totalVolume'\<rparr>
                else k)
      in k' # avgLoop totalAmount' totalVolume' ks)"

definition calculateAvgLine :: "KLineData list \<Rightarrow> KLineData list" where
  "calculateAvgLine klines = (if klines = [] then klines else avgLoop 0 0 klines)"

definition fetchKLineData ::
  "stdlib \<Rightarrow> Upstream \<Rightarrow> GoTime \<Rightarrow> string \<Rightarrow> string \<Rightarrow> int \<Rightarrow> error + KLineData list" where
  "fetchKLineData sl up now code period days =
     (case sinaKLines up code (periodToScale period) days of
        Inl e \<Rightarrow> Inl e
      | Inr sinaData \<Rightarrow>
          let klines = parseKLineData sl sinaData
          in if period = ''1m''
             then (case filterTodayKLines now klines of
                     Inl e \<Rightarrow> Inl e
                   | Inr today \<Rightarrow> Inr (calculateAvgLine today))
             else Inr klines)"

definition klineCacheKey :: "string \<Rightarrow> string \<Rightarrow> int \<Rightarrow> string" where
  "klineCacheKey code period days = code @ '':'' @ period @ '':'' @ Sprintf_d days"

definition GetKLineData ::
  "stdlib \<Rightarrow> Upstream \<Rightarrow> Clock \<Rightarrow> MarketService \<Rightarrow> string \<Rightarrow> string \<Rightarrow> int \<Rightarrow>
   (error + KLineData list) \<times> MarketService \<times> Request list" where
  "GetKLineData sl up clk ms code period days =
     (let cacheKey = klineCacheKey code period days;
          hit = (case klineCache ms cacheKey of
                   None \<Rightarrow> None
                 | Some cached \<Rightarrow>
                     if Since (atCheck clk) (timestamp cached) < klineCacheTTL ms
                     then Some (data cached) else None)
      in case hit of
           Some d \<Rightarrow> (Inr d, ms, [])
         | None \<Rightarrow>
             (case fetchKLineData sl up (atFetch clk) code period days of
                Inl e \<Rightarrow> (Inl e, ms, [KLineRequest code (periodToScale period) days])
              | Inr d \<Rightarrow>
                  (Inr d,
                   ms\<lparr>klineCache :=
                        (klineCache ms)(cacheKey \<mapsto> \<lparr>data = d, timestamp = atStore clk\<rparr>)\<rparr>,
                   [KLineRequest code (periodToScale period) days])))"

section \<open>Trading calendar\<close>

text \<open>The rolling window of trading dates, and the status of the market.\<close>

record tradeDatesCache =
  TradeDates :: "string list"
  UpdatedAt :: GoTime

record MarketStatus =
  Status :: string
  StatusText :: string
  IsTradeDay :: bool
  HolidayName :: string

text \<open>The warnings that the calendar logs; entries of lower levels are left out.\<close>

datatype LogEntry =
  WarnHolidayLoad int error      \<comment> \<open>loading the holidays of a year failed\<close>
| WarnTradeDatesStale error      \<comment> \<open>computing the trading dates failed, old cache used\<close>
| WarnTradeDatesSave error       \<comment> \<open>writing the trading-date cache failed\<close>

text \<open>
  The state of the calendar: the process-wide map \<open>holidayCacheData\<close>, and the cache
  directory. \<open>holidayFiles year\<close> is the document that the file of the year decodes to,
  \<open>None\<close> when the file cannot be read or decoded; \<open>tradeDatesFile\<close> likewise for
  \<open>trade_dates.json\<close>. \<open>diskWritable\<close> says whether \<open>os.WriteFile\<close> succeeds. The CDN is
  \<open>holidayCDN\<close> of the upstream: the decoded document of a year, or the error of the
  request or of decoding it.
\<close>

record Calendar =
  holidayCacheData :: "int \<rightharpoonup> (string \<rightharpoonup> bool)"
  holidayFiles :: "int \<rightharpoonup> holidayData"
  tradeDatesFile :: "tradeDatesCache option"
  diskWritable :: bool
  logged :: "LogEntry list"

definition warn :: "LogEntry \<Rightarrow> Calendar \<Rightarrow> Calendar" where
  "warn entry cal = cal\<lparr>logged := logged cal @ [entry]\<rparr>"

text \<open>The texts of the source, as UTF-8 bytes.\<close>

definition utf8 :: "nat list \<Rightarrow> string" where
  "utf8 bytes = map char_of bytes"

definition text_weekend :: string where
  "text_weekend = utf8 [229, 145, 168, 230, 156, 171]"

definition text_rest :: string where
  "text_rest = utf8 [228, 188, 145, 229, 184, 130]"

definition text_weekend_rest :: string where
  "text_weekend_rest = utf8 [229, 145, 168, 230, 156, 171, 228, 188, 145, 229, 184, 130]"

definition text_before_open :: string where
  "text_before_open = utf8 [231, 155, 152, 229, 137, 141]"

definition text_auction :: string where
  "text_auction = utf8 [233, 155, 134, 229, 144, 136, 231, 171, 158, 228, 187, 183]"

definition text_trading :: string where
  "text_trading = utf8 [228, 186, 164, 230, 152, 147, 228, 184, 173]"

definition text_lunch :: string where
  "text_lunch = utf8 [229, 141, 136, 233, 151, 180, 228, 188, 145, 229, 184, 130]"

definition text_after_close :: string where
  "text_after_close = utf8 [229, 183, 178, 230, 148, 182, 231, 155, 152]"

text \<open>\<open>parseHolidayData\<close>: a later entry of a date overwrites an earlier one.\<close>

definition parseHolidayData :: "holidayData \<Rightarrow> (string \<rightharpoonup> bool)" where
  "parseHolidayData doc = foldl (\<lambda>m day. m(Date day \<mapsto> IsOffDay day)) Map.empty (Days doc)"

text \<open>
  \<open>fetchHolidayData\<close>: on success the document is written to the file of the year (a
  failure of the write is ignored) and its table is stored in memory.
\<close>

definition fetchHolidayData ::
  "Upstream \<Rightarrow> int \<Rightarrow> Calendar \<Rightarrow> (error + (string \<rightharpoonup> bool)) \<times> Calendar" where
  "fetchHolidayData up year cal =
     (case holidayCDN up year of
        Inl e \<Rightarrow> (Inl e, cal)
      | Inr doc \<Rightarrow>
          let cal1 = (if diskWritable cal
                      then cal\<lparr>holidayFiles := (holidayFiles cal)(year \<mapsto> doc)\<rparr> else cal);
              d = parseHolidayData doc
          in (Inr d, cal1\<lparr>holidayCacheData := (holidayCacheData cal1)(year \<mapsto> d)\<rparr>))"

text \<open>\<open>loadHolidayData\<close>: memory, then the file, then the CDN.\<close>

definition loadHolidayData ::
  "Upstream \<Rightarrow> int \<Rightarrow> Calendar \<Rightarrow> (error + (string \<rightharpoonup> bool)) \<times> Calendar" where
  "loadHolidayData up year cal =
     (case holidayCacheData cal year of
        Some d \<Rightarrow> (Inr d, cal)
      | None \<Rightarrow>
          (case holidayFiles cal year of
             Some doc \<Rightarrow>
               let d = parseHolidayData doc
               in (Inr d, cal\<lparr>holidayCacheData := (holidayCacheData cal)(year \<mapsto> d)\<rparr>)
           | None \<Rightarrow> fetchHolidayData up year cal))"

text \<open>\<open>getHolidayNote\<close>: the name of the first entry of the date in the file of the year.\<close>

definition getHolidayNote :: "int \<Rightarrow> string \<Rightarrow> Calendar \<Rightarrow> string" where
  "getHolidayNote year dateStr cal =
     (case holidayFiles cal year of
        None \<Rightarrow> []
      | Some doc \<Rightarrow>
          (case filter (\<lambda>day. Date day = dateStr) (Days doc) of
             [] \<Rightarrow> []
           | day # _ \<Rightarrow> DayName day))"

text \<open>
  \<open>getHolidayStatus\<close> returns \<open>(isOffDay, inList, note)\<close>. When the holidays of the year
  cannot be loaded it logs a warning and answers as for a date that is not listed.
\<close>

definition getHolidayStatus ::
  "Upstream \<Rightarrow> GoTime \<Rightarrow> Calendar \<Rightarrow> (bool \<times> bool \<times> string) \<times> Calendar" where
  "getHolidayStatus up date cal =
     (let dateStr = Format_date date; year = Time_Year date
      in case loadHolidayData up year cal of
           (Inl e, cal1) \<Rightarrow> ((False, False, []), warn (WarnHolidayLoad year e) cal1)
         | (Inr yearData, cal1) \<Rightarrow>
             (case yearData dateStr of
                Some isOff \<Rightarrow> ((isOff, True, getHolidayNote year dateStr cal1), cal1)
              | None \<Rightarrow> ((False, False, []), cal1)))"

text \<open>\<open>isTradeDay\<close>: never at a weekend; on a weekday, unless the date is listed as off.\<close>

definition isTradeDay :: "Upstream \<Rightarrow> GoTime \<Rightarrow> Calendar \<Rightarrow> (bool \<times> string) \<times> Calendar" where
  "isTradeDay up date cal =
     (let weekday = Time_Weekday date
      in if weekday = Saturday \<or> weekday = Sunday then ((False, text_weekend), cal)
         else
           (case getHolidayStatus up date cal of
              ((isOffDay, inList, note), cal1) \<Rightarrow>
                if inList \<and> isOffDay then ((False, note), cal1) else ((True, []), cal1)))"

definition isTradeDate :: "Upstream \<Rightarrow> GoTime \<Rightarrow> Calendar \<Rightarrow> bool \<times> Calendar" where
  "isTradeDate up date cal = (case isTradeDay up date cal of ((b, _), cal1) \<Rightarrow> (b, cal1))"

text \<open>
  \<open>GetMarketStatus\<close>, at the clock reading \<open>now0\<close>: the time is seen in the fixed zone
  UTC+8 whatever zone \<open>now0\<close> came in.
\<close>

definition GetMarketStatus :: "Upstream \<Rightarrow> GoTime \<Rightarrow> Calendar \<Rightarrow> MarketStatus \<times> Calendar" where
  "GetMarketStatus up now0 cal =
     (let loc = 8 * 60 * 60;
          now = In now0 loc
      in case isTradeDay up now cal of
           ((isTrade, holidayName), cal1) \<Rightarrow>
             if \<not> isTrade
             then
               let statusText =
                     (if holidayName \<noteq> [] then holidayName @ text_rest
                      else if Time_Weekday now = Saturday \<or> Time_Weekday now = Sunday
                        then text_weekend_rest
                      else text_rest)
               in (\<lparr>Status = ''closed'', StatusText = statusText, IsTradeDay = False,
                    HolidayName = holidayName\<rparr>, cal1)
             else
               let hour = Time_Hour now; minute = Time_Minute now;
                   currentMinutes = hour * 60 + minute
               in ((if currentMinutes < 9 * 60 + 15
                      then \<lparr>Status = ''pre_market'', StatusText = text_before_open,
                            IsTradeDay = True, HolidayName = []\<rparr>
                    else if currentMinutes < 9 * 60 + 30
                      then \<lparr>Status = ''pre_market'', StatusText = text_auction,
                            IsTradeDay = True, HolidayName = []\<rparr>
                    else if currentMinutes < 11 * 60 + 30
                      then \<lparr>Status = ''trading'', StatusText = text_trading,
                            IsTradeDay = True, HolidayName = []\<rparr>
                    else if currentMinutes < 13 * 60
                      then \<lparr>Status = ''lunch_break'', StatusText = text_lunch,
                            IsTradeDay = True, HolidayName = []\<rparr>
                    else if currentMinutes < 15 * 60
                      then \<lparr>Status = ''trading'', StatusText = text_trading,
                            IsTradeDay = True, HolidayName = []\<rparr>
                    else \<lparr>Status = ''closed'', StatusText = text_after_close,
                          IsTradeDay = True, HolidayName = []\<rparr>), cal1))"

subsection \<open>The window of trading dates\<close>

text \<open>
  \<open>filterTradeDates\<close>: the first \<open>days\<close> dates; \<open>dates[:days]\<close> panics on a negative
  \<open>days\<close>.
\<close>

definition filterTradeDates :: "string list \<Rightarrow> int \<Rightarrow> error + string list" where
  "filterTradeDates dates days =
     (if int (length dates) \<le> days then Inr dates
      else if days < 0 then Inl Panic
      else Inr (take (nat days) dates))"

definition loadTradeDatesCache :: "Calendar \<Rightarrow> error + tradeDatesCache" where
  "loadTradeDatesCache cal =
     (case tradeDatesFile cal of
        None \<Rightarrow> Inl (Failure ''trade_dates.json'')
      | Some c \<Rightarrow> Inr c)"

definition saveTradeDatesCache :: "GoTime \<Rightarrow> string list \<Rightarrow> Calendar \<Rightarrow> error option \<times> Calendar" where
  "saveTradeDatesCache now dates cal =
     (if diskWritable cal
      then (None, cal\<lparr>tradeDatesFile := Some \<lparr>TradeDates = dates, UpdatedAt = now\<rparr>\<rparr>)
      else (Some (Failure ''trade_dates.json''), cal))"

text \<open>
  \<open>fetchTradeDates\<close>. The first pass loads the holidays of every year among the last
  \<open>days\<close> days, logging a failure; Go ranges over the years in no fixed order, here the
  order of first occurrence. The second loop walks back from today and keeps the trading
  dates. The function has no path that returns an error.
\<close>

definition daysBack :: "GoTime \<Rightarrow> int \<Rightarrow> GoTime list" where
  "daysBack today days = map (\<lambda>i. AddDate_days today (- int i)) [0..<nat days]"

fun preloadYears :: "Upstream \<Rightarrow> int list \<Rightarrow> Calendar \<Rightarrow> Calendar" where
  "preloadYears up [] cal = cal"
| "preloadYears up (year # years) cal =
     (case loadHolidayData up year cal of
        (Inl e, cal1) \<Rightarrow> preloadYears up years (warn (WarnHolidayLoad year e) cal1)
      | (Inr _, cal1) \<Rightarrow> preloadYears up years cal1)"

fun collectTradeDates :: "Upstream \<Rightarrow> GoTime list \<Rightarrow> Calendar \<Rightarrow> string list \<times> Calendar" where
  "collectTradeDates up [] cal = ([], cal)"
| "collectTradeDates up (date # dates) cal =
     (case isTradeDate up date cal of
        (b, cal1) \<Rightarrow>
          (case collectTradeDates up dates cal1 of
             (rest, cal2) \<Rightarrow> ((if b then Format_date date # rest else rest), cal2)))"

definition fetchTradeDates ::
  "Upstream \<Rightarrow> GoTime \<Rightarrow> int \<Rightarrow> Calendar \<Rightarrow> (error + string list) \<times> Calendar" where
  "fetchTradeDates up today days cal =
     (let yearsNeeded = remdups (map Time_Year (daysBack today days));
          cal1 = preloadYears up yearsNeeded cal
      in case collectTradeDates up (daysBack today days) cal1 of
           (tradeDates, cal2) \<Rightarrow> (Inr tradeDates, cal2))"

text \<open>
  \<open>GetTradeDates\<close>: a cache younger than 24 hours is used; otherwise 90 days are
  computed, saved and returned. The branch for a failed computation falls back to an old
  cache that is not empty.
\<close>

definition GetTradeDates ::
  "Upstream \<Rightarrow> Clock \<Rightarrow> int \<Rightarrow> Calendar \<Rightarrow> (error + string list) \<times> Calendar" where
  "GetTradeDates up clk days cal =
     (let cached = loadTradeDatesCache cal;
          fresh = (case cached of
                     Inl _ \<Rightarrow> None
                   | Inr c \<Rightarrow>
                       if TradeDates c \<noteq> [] \<and> Since (atCheck clk) (UpdatedAt c) < 24 * Hour
                       then Some c else None)
      in case fresh of
           Some c \<Rightarrow> (filterTradeDates (TradeDates c) days, cal)
         | None \<Rightarrow>
             (case fetchTradeDates up (atFetch clk) 90 cal of
                (Inl err, cal1) \<Rightarrow>
                  (case cached of
                     Inr c \<Rightarrow>
                       if TradeDates c \<noteq> []
                       then (filterTradeDates (TradeDates c) days,
                             warn (WarnTradeDatesStale err) cal1)
                       else (Inl err, cal1)
                   | Inl _ \<Rightarrow> (Inl err, cal1))
              | (Inr tradeDates, cal1) \<Rightarrow>
                  (case saveTradeDatesCache (atStore clk) tradeDates cal1 of
                     (Some e, cal2) \<Rightarrow>
                       (filterTradeDates tradeDates days, warn (WarnTradeDatesSave e) cal2)
                   | (None, cal2) \<Rightarrow> (filterTradeDates tradeDates days, cal2))))"

section \<open>The pusher\<close>

text \<open>
  Modelled from the spec: the news service and the type of its items are not among the
  sources. Of an item the pusher reads the field \<open>Content\<close> only. The answer of
  \<open>GetTelegraphList\<close> is an argument of the push: \<open>None\<close> stands for a pusher built
  without a news service.
\<close>

record Telegraph =
  Content :: string

text \<open>The events that the modelled pushes emit, with their payloads.\<close>

datatype Event =
  OrderBookUpdate OrderBook
| TelegraphUpdate Telegraph
| KLineUpdate (evCode: string) (evPeriod: string) (evData: "KLineData list")
    (evIncremental: "bool option")

record KLineSubscription =
  Code :: string
  Period :: string

text \<open>
  \<open>MarketDataPusher\<close>: the fields that hold data. The services are arguments of the
  methods; the locks and the stop channel carry no data, and every method runs as one
  step.
\<close>

record MarketDataPusher =
  subscribedCodes :: "string list"
  currentOrderBook :: string
  klineSub :: KLineSubscription
  lastKLineTime :: int
  lastTelegraphContent :: string
  lastOrderBookHash :: string
  lastMarketStatus :: string
  lastMarketStatusTime :: GoTime

text \<open>\<open>NewMarketDataPusher\<close>: every field at Go's zero value, the code list empty.\<close>

definition NewMarketDataPusher :: MarketDataPusher where
  "NewMarketDataPusher =
     \<lparr>subscribedCodes = [], currentOrderBook = [],
      klineSub = \<lparr>Code = [], Period = []\<rparr>, lastKLineTime = 0,
      lastTelegraphContent = [], lastOrderBookHash = [],
      lastMarketStatus = [], lastMarketStatusTime = \<lparr>unixNano = 0, zoneOffset = 0\<rparr>\<rparr>"

subsection \<open>Subscription registry\<close>

text \<open>\<open>AddSubscription\<close>: append the code unless the list has it.\<close>

definition AddSubscription :: "string \<Rightarrow> MarketDataPusher \<Rightarrow> MarketDataPusher" where
  "AddSubscription code p =
     (if \<not> Contains (subscribedCodes p) code
      then p\<lparr>subscribedCodes := subscribedCodes p @ [code]\<rparr>
      else p)"

text \<open>
  The loop of \<open>RemoveSubscription\<close>: at the first index \<open>i\<close> whose element is the code,
  the list becomes \<open>codes[:i]\<close> followed by \<open>codes[i+1:]\<close> and the method returns.
\<close>

fun removeFirst :: "string \<Rightarrow> string list \<Rightarrow> string list" where
  "removeFirst code [] = []"
| "removeFirst code (c # cs) = (if c = code then cs else c # removeFirst code cs)"

definition RemoveSubscription :: "string \<Rightarrow> MarketDataPusher \<Rightarrow> MarketDataPusher" where
  "RemoveSubscription code p = p\<lparr>subscribedCodes := removeFirst code (subscribedCodes p)\<rparr>"

text \<open>
  The listener of the candle subscription event: a subscription with a code and a period
  replaces the current one and resets the time of the last candle. (The full push that
  the listener then starts runs beside it.)
\<close>

definition subscribeKLine :: "string \<Rightarrow> string \<Rightarrow> MarketDataPusher \<Rightarrow> MarketDataPusher" where
  "subscribeKLine code period p =
     (if code \<noteq> [] \<and> period \<noteq> []
      then p\<lparr>klineSub := \<lparr>Code = code, Period = period\<rparr>, lastKLineTime := 0\<rparr>
      else p)"

subsection \<open>Order book push\<close>

text \<open>\<open>orderBookHash\<close>: the first bid and the first ask, zero for an empty side.\<close>

definition orderBookHash :: "OrderBook \<Rightarrow> string" where
  "orderBookHash ob =
     (let (b1Price, b1Size) =
            (case Bids ob of [] \<Rightarrow> (0, 0) | b # _ \<Rightarrow> (ItemPrice b, float64 (Size b)));
          (a1Price, a1Size) =
            (case Asks ob of [] \<Rightarrow> (0, 0) | a # _ \<Rightarrow> (ItemPrice a, float64 (Size a)))
      in Sprintf_2f b1Price @ '':'' @ Sprintf_0f b1Size @ '':'' @
         Sprintf_2f a1Price @ '':'' @ Sprintf_0f a1Size)"

text \<open>
  A push returns the events it emits, the pusher and the market service after it, and
  the requests sent upstream. A failure of the call inside, an error or a panic that
  \<open>safeCall\<close> recovers, ends the push with no event.
\<close>

definition pushOrderBookData ::
  "stdlib \<Rightarrow> Upstream \<Rightarrow> Clock \<Rightarrow> MarketService \<Rightarrow> MarketDataPusher \<Rightarrow>
   Event list \<times> MarketDataPusher \<times> MarketService \<times> Request list" where
  "pushOrderBookData sl up clk ms p =
     (let code = currentOrderBook p; lastHash = lastOrderBookHash p
      in if code = [] then ([], p, ms, [])
         else
           (case GetRealOrderBook sl up clk ms code of
              (Inl e, ms', reqs) \<Rightarrow> ([], p, ms', reqs)
            | (Inr orderBook, ms', reqs) \<Rightarrow>
                let hash = orderBookHash orderBook
                in if hash = lastHash then ([], p, ms', reqs)
                   else ([OrderBookUpdate orderBook], p\<lparr>lastOrderBookHash := hash\<rparr>, ms', reqs)))"

subsection \<open>News flash push\<close>

definition pushTelegraphData ::
  "(error + Telegraph list) option \<Rightarrow> MarketDataPusher \<Rightarrow> Event list \<times> MarketDataPusher" where
  "pushTelegraphData news p =
     (case news of
        None \<Rightarrow> ([], p)
      | Some (Inl e) \<Rightarrow> ([], p)
      | Some (Inr []) \<Rightarrow> ([], p)
      | Some (Inr (latest # _)) \<Rightarrow>
          if Content latest = lastTelegraphContent p then ([], p)
          else ([TelegraphUpdate latest], p\<lparr>lastTelegraphContent := Content latest\<rparr>))"

text \<open>The slow ticker: one news push after the other, each with the answer it gets.\<close>

fun pushTelegraphRun ::
  "(error + Telegraph list) option list \<Rightarrow> MarketDataPusher \<Rightarrow> Event list \<times> MarketDataPusher" where
  "pushTelegraphRun [] p = ([], p)"
| "pushTelegraphRun (news # rest) p =
     (case pushTelegraphData news p of
        (evs, p1) \<Rightarrow> (case pushTelegraphRun rest p1 of (evs', p2) \<Rightarrow> (evs @ evs', p2)))"

subsection \<open>Candle push\<close>

definition parseKLineTime :: "stdlib \<Rightarrow> string \<Rightarrow> int" where
  "parseKLineTime sl t = (case ParseUnix sl t of Some u \<Rightarrow> u | None \<Rightarrow> 0)"

definition pushKLineData ::
  "stdlib \<Rightarrow> Upstream \<Rightarrow> Clock \<Rightarrow> MarketService \<Rightarrow> MarketDataPusher \<Rightarrow>
   Event list \<times> MarketDataPusher \<times> MarketService \<times> Request list" where
  "pushKLineData sl up clk ms p =
     (let sub = klineSub p
      in if Code sub = [] then ([], p, ms, [])
         else
           (case GetKLineData sl up clk ms (Code sub) (Period sub) 240 of
              (Inl e, ms', reqs) \<Rightarrow> ([], p, ms', reqs)
            | (Inr klines, ms', reqs) \<Rightarrow>
                ([KLineUpdate (Code sub) (Period sub) klines None], p, ms', reqs)))"

definition pushKLineMinute ::
  "stdlib \<Rightarrow> Upstream \<Rightarrow> Clock \<Rightarrow> MarketService \<Rightarrow> MarketDataPusher \<Rightarrow>
   Event list \<times> MarketDataPusher \<times> MarketService \<times> Request list" where
  "pushKLineMinute sl up clk ms p =
     (let sub = klineSub p; lastTime = lastKLineTime p
      in if Code sub = [] \<or> Period sub \<noteq> ''1m'' then ([], p, ms, [])
         else
           (case GetKLineData sl up clk ms (Code sub) ''1m'' 5 of
              (Inl e, ms', reqs) \<Rightarrow> ([], p, ms', reqs)
            | (Inr klines, ms', reqs) \<Rightarrow>
                if klines = [] then ([], p, ms', reqs)
                else
                  let latest = last klines;
                      latestTime = parseKLineTime sl (Time latest);
                      p' = p\<lparr>lastKLineTime := latestTime\<rparr>
                  in if lastTime = 0 \<or> latestTime \<noteq> lastTime
                     then ([KLineUpdate (Code sub) ''1m'' [latest] (Some True)], p', ms', reqs)
                     else ([], p', ms', reqs)))"

text \<open>The contents of the news events in a list of events, in order.\<close>

fun telegraphContents :: "Event list \<Rightarrow> string list" where
  "telegraphContents [] = []"
| "telegraphContents (TelegraphUpdate t # evs) = Content t # telegraphContents evs"
| "telegraphContents (_ # evs) = telegraphContents evs"

section \<open>Concrete inputs\<close>

text \<open>A pusher watching two symbols.\<close>

definition pusher_two :: MarketDataPusher where
  "pusher_two = NewMarketDataPusher\<lparr>subscribedCodes := [''sh600000'', ''sz000001'']\<rparr>"

text \<open>
  A quote record of 32 fields with five bid and five ask levels, the quote and the book
  it parses to, and the same record with the price and the volume of the first bid level
  zero.
\<close>

definition payload_600000 :: string where
  "payload_600000 = ''600000,10.00,9.90,10.05,10.10,9.80,10.04,10.05,1234500,12400000.00,500,10.04,300,10.03,200,10.02,100,10.01,900,10.00,400,10.05,600,10.06,700,10.07,800,10.08,1000,10.09,2024-01-02,09:31:00''"

definition parts_600000 :: "string list" where
  "parts_600000 = [''600000'', ''10.00'', ''9.90'', ''10.05'', ''10.10'', ''9.80'', ''10.04'',
     ''10.05'', ''1234500'', ''12400000.00'',
     ''500'', ''10.04'', ''300'', ''10.03'', ''200'', ''10.02'', ''100'', ''10.01'', ''900'', ''10.00'',
     ''400'', ''10.05'', ''600'', ''10.06'', ''700'', ''10.07'', ''800'', ''10.08'', ''1000'', ''10.09'',
     ''2024-01-02'', ''09:31:00'']"

definition stock_600000 :: Stock where
  "stock_600000 = \<lparr>Symbol = ''sh600000'', Name = ''600000'', Price = 10.05, Open = 10,
     High = 10.1, Low = 9.8, PreClose = 9.9, Change = 0.15, ChangePercent = 50 / 33,
     Volume = 1234500, Amount = 12400000\<rparr>"

definition level :: "real \<Rightarrow> int64 \<Rightarrow> int64 \<Rightarrow> real \<Rightarrow> OrderBookItem" where
  "level p s t f = \<lparr>ItemPrice = p, Size = s, Total = t, Percent = f\<rparr>"

definition book_600000 :: OrderBook where
  "book_600000 = \<lparr>Bids = [level 10.04 5 5 (5/9), level 10.03 3 8 (3/9), level 10.02 2 10 (2/9),
       level 10.01 1 11 (1/9), level 10 9 20 1],
     Asks = [level 10.05 4 4 (4/10), level 10.06 6 10 (6/10), level 10.07 7 17 (7/10),
       level 10.08 8 25 (8/10), level 10.09 10 35 1]\<rparr>"

definition parts_gap :: "string list" where
  "parts_gap = parts_600000[10 := ''0'', 11 := ''0.00'']"

definition book_gap :: OrderBook where
  "book_gap = \<lparr>Bids = [level 10.03 3 3 (3/9), level 10.02 2 5 (2/9),
       level 10.01 1 6 (1/9), level 10 9 15 1],
     Asks = [level 10.05 4 4 (4/10), level 10.06 6 10 (6/10), level 10.07 7 17 (7/10),
       level 10.08 8 25 (8/10), level 10.09 10 35 1]\<rparr>"

text \<open>
  One minute candle of 2 January 2024 as the quote source sends it and as the service
  returns it, an upstream that answers every candle request with it, every quote request with the
  quote record above and no holiday request, clocks in the zone UTC+8, and a pusher subscribed to one-minute candles.
\<close>

definition raw_0931 :: sinaKLine where
  "raw_0931 = \<lparr>Day = ''2024-01-02 09:31:00'', RawOpen = ''10.00'', RawHigh = ''10.10'',
     RawLow = ''9.95'', RawClose = ''10.05'', RawVolume = ''1200'', RawAmount = ''12060.00'',
     MAPrice5 = 0, MAPrice10 = 0, MAPrice20 = 0\<rparr>"

definition kline_0931 :: KLineData where
  "kline_0931 = \<lparr>Time = ''2024-01-02 09:31:00'', KOpen = 10, KHigh = 10.1, KLow = 9.95,
     Close = 10.05, KVolume = 1200, KAmount = 12060, MA5 = 0, MA10 = 0, MA20 = 0,
     Avg = 10.05\<rparr>"

definition up_minute :: Upstream where
  "up_minute = \<lparr>sinaQuotes = (\<lambda>_. Inr [(''sh600000'', payload_600000)]),
     sinaKLines = (\<lambda>_ _ _. Inr [raw_0931]),
     holidayCDN = (\<lambda>_. Inl (Failure ''offline''))\<rparr>"

definition at_cst :: "int \<Rightarrow> GoTime" where
  "at_cst secs = \<lparr>unixNano = secs * Second, zoneOffset = 28800\<rparr>"

definition clock_at :: "int \<Rightarrow> Clock" where
  "clock_at secs = \<lparr>atCheck = at_cst secs, atFetch = at_cst secs, atStore = at_cst secs\<rparr>"

text \<open>
  A pusher that had pushed day candles of another symbol, with a time recorded, and the
  pusher after the subscription is set to one-minute candles.
\<close>

definition pusher_old :: MarketDataPusher where
  "pusher_old = NewMarketDataPusher\<lparr>klineSub := \<lparr>Code = ''sz000001'', Period = ''1d''\<rparr>,
     lastKLineTime := 1704187860\<rparr>"

definition pusher_1m :: MarketDataPusher where
  "pusher_1m = subscribeKLine ''sh600000'' ''1m'' pusher_old"

text \<open>
  The same candle with a time that \<open>time.Parse\<close> rejects (a \<open>T\<close> where the layout has a
  space), an upstream that answers with it, and the service after caching it.
\<close>

definition raw_T :: sinaKLine where
  "raw_T = raw_0931\<lparr>Day := ''2024-01-02T09:31:00''\<rparr>"

definition kline_T :: KLineData where
  "kline_T = kline_0931\<lparr>Time := ''2024-01-02T09:31:00''\<rparr>"

definition up_T :: Upstream where
  "up_T = up_minute\<lparr>sinaKLines := (\<lambda>_ _ _. Inr [raw_T])\<rparr>"

definition service_T :: MarketService where
  "service_T = NewMarketService\<lparr>klineCache :=
     [''sh600000:1m:5'' \<mapsto> \<lparr>data = [kline_T], timestamp = at_cst 1704159090\<rparr>]\<rparr>"

definition service_0931 :: MarketService where
  "service_0931 = NewMarketService\<lparr>klineCache :=
     [''sh600000:1m:5'' \<mapsto> \<lparr>data = [kline_0931], timestamp = at_cst 1704159090\<rparr>]\<rparr>"

text \<open>The parsed quote record, and a service whose quote cache holds it.\<close>

definition quote_600000 :: StockWithOrderBook where
  "quote_600000 = \<lparr>EmbeddedStock = stock_600000, BookOf = book_600000\<rparr>"

definition service_quote :: MarketService where
  "service_quote = NewMarketService\<lparr>cache :=
     [''sh600000'' \<mapsto> \<lparr>data = [quote_600000], timestamp = at_cst 1704159090\<rparr>]\<rparr>"

text \<open>The minute of the day of an instant, on the clock of the zone UTC+8.\<close>

definition minuteOfDay :: "GoTime \<Rightarrow> int" where
  "minuteOfDay now =
     Time_Hour (In now (8 * 60 * 60)) * 60 + Time_Minute (In now (8 * 60 * 60))"

text \<open>
  The phase of a trading day by the minute of the day, in the words of the specification;
  the market service is compared with it below.
\<close>

definition specPhase :: "int \<Rightarrow> string" where
  "specPhase m =
     (if m < 9 * 60 + 15 then ''pre_market''
      else if m < 9 * 60 + 30 then ''pre_market_auction''
      else if m < 11 * 60 + 30 then ''trading''
      else if m < 13 * 60 then ''lunch_break''
      else if m < 15 * 60 then ''trading''
      else ''closed'')"

text \<open>
  A calendar that has the holidays of 2024 in memory, with New Year's Day off, and a
  calendar with nothing in memory and nothing on disk.
\<close>

definition calendar_2024 :: Calendar where
  "calendar_2024 =
     \<lparr>holidayCacheData = [2024 \<mapsto> [''2024-01-01'' \<mapsto> True]], holidayFiles = Map.empty,
      tradeDatesFile = None, diskWritable = True, logged = []\<rparr>"

definition calendar_empty :: Calendar where
  "calendar_empty =
     \<lparr>holidayCacheData = Map.empty, holidayFiles = Map.empty,
      tradeDatesFile = None, diskWritable = True, logged = []\<rparr>"








text \<open>
  No holiday data can be had: nothing in memory, no file that decodes, and the CDN fails
  for every year.
\<close>

definition noHolidayData :: "Upstream \<Rightarrow> Calendar \<Rightarrow> bool" where
  "noHolidayData up cal \<longleftrightarrow>
     holidayCacheData cal = Map.empty \<and> holidayFiles cal = Map.empty \<and>
     (\<forall>year. \<exists>e. holidayCDN up year = Inl e)"

text \<open>
  A calendar with no holiday data whose trading-date cache, two days old, holds the last
  two trading days of 2023.
\<close>

definition calendar_stale :: Calendar where
  "calendar_stale = calendar_empty\<lparr>tradeDatesFile :=
     Some \<lparr>TradeDates = [''2023-12-29'', ''2023-12-28''], UpdatedAt = at_cst 1703986290\<rparr>\<rparr>"

section \<open>Properties\<close>

subsection \<open>Evaluating the library functions\<close>

lemma showNat_digit: "n < 10 \<Longrightarrow> showNat n = [digitChar n]"
  by (subst showNat.simps) simp

lemma showNat_step: "10 \<le> n \<Longrightarrow> showNat n = showNat (n div 10) @ [digitChar (n mod 10)]"
  by (subst showNat.simps) simp

lemmas showNat_eval = showNat_digit showNat_step digitChar_def

lemmas plain_simps = plain_def plainFloat_def plainUnsigned_def plainInt_def plainUnix_def
  isDigit_def isDigits_def readDigits_def digitVal_def clamp64_def

lemma plain_floats:
  "ParseFloat plain ''10.00'' = 10"
  "ParseFloat plain ''9.90'' = 9.9"
  "ParseFloat plain ''10.05'' = 10.05"
  "ParseFloat plain ''10.10'' = 10.1"
  "ParseFloat plain ''9.80'' = 9.8"
  "ParseFloat plain ''12400000.00'' = 12400000"
  "ParseFloat plain ''10.04'' = 10.04"
  "ParseFloat plain ''10.03'' = 10.03"
  "ParseFloat plain ''10.02'' = 10.02"
  "ParseFloat plain ''10.01'' = 10.01"
  "ParseFloat plain ''10.06'' = 10.06"
  "ParseFloat plain ''10.07'' = 10.07"
  "ParseFloat plain ''10.08'' = 10.08"
  "ParseFloat plain ''10.09'' = 10.09"
  by (simp_all add: plain_simps)

lemma plain_ints:
  "ParseInt plain ''1234500'' = 1234500"
  "ParseInt plain ''500'' = 500"
  "ParseInt plain ''300'' = 300"
  "ParseInt plain ''200'' = 200"
  "ParseInt plain ''100'' = 100"
  "ParseInt plain ''900'' = 900"
  "ParseInt plain ''400'' = 400"
  "ParseInt plain ''600'' = 600"
  "ParseInt plain ''700'' = 700"
  "ParseInt plain ''800'' = 800"
  "ParseInt plain ''1000'' = 1000"
  by (simp_all add: plain_simps)

lemma plain_zero: "ParseFloat plain ''0.00'' = 0" "ParseInt plain ''0'' = 0"
  by (simp_all add: plain_simps)

lemma lots:
  "div64 500 100 = 5" "div64 300 100 = 3" "div64 200 100 = 2" "div64 100 100 = 1"
  "div64 900 100 = 9" "div64 400 100 = 4" "div64 600 100 = 6" "div64 700 100 = 7"
  "div64 800 100 = 8" "div64 1000 100 = 10" "div64 0 100 = 0"
  by (simp_all add: div64_def signed_divide_int_def)

lemma upt_5: "[0..<5] = [0, 1, 2, 3, 4]"
  by code_simp

subsection \<open>Subscription registry\<close>

lemma Contains_iff: "Contains xs x \<longleftrightarrow> x \<in> set xs"
  by (simp add: Contains_def)

lemma removeFirst_absent: "code \<notin> set cs \<Longrightarrow> removeFirst code cs = cs"
  by (induction cs) auto

lemma removeFirst_present_length:
  "code \<in> set cs \<Longrightarrow> Suc (length (removeFirst code cs)) = length cs"
  by (induction cs) auto

text \<open>
  C8. Adding a symbol that the watchlist already holds leaves the pusher as it was, so
  the watchlist keeps its length and its contents; removing a symbol that the watchlist
  does not hold leaves the pusher as it was.
\<close>

theorem C8_add_present_remove_absent_noop:
  "(code \<in> set (subscribedCodes p) \<longrightarrow> AddSubscription code p = p) \<and>
   (code \<notin> set (subscribedCodes p) \<longrightarrow> RemoveSubscription code p = p)"
  by (simp add: AddSubscription_def RemoveSubscription_def Contains_iff removeFirst_absent)

theorem C8_witness:
  "''sh600000'' \<in> set (subscribedCodes pusher_two) \<and>
   AddSubscription ''sh600000'' pusher_two = pusher_two \<and>
   ''sh600519'' \<notin> set (subscribedCodes pusher_two) \<and>
   RemoveSubscription ''sh600519'' pusher_two = pusher_two"
  using C8_add_present_remove_absent_noop [of "''sh600000''" pusher_two]
    C8_add_present_remove_absent_noop [of "''sh600519''" pusher_two]
  by (simp add: pusher_two_def NewMarketDataPusher_def)

subsection \<open>News flash push\<close>

text \<open>One push either emits nothing and changes nothing, or emits a new latest item.\<close>

lemma pushTelegraphData_cases:
  "pushTelegraphData news p = ([], p) \<or>
   (\<exists>latest rest. news = Some (Inr (latest # rest)) \<and>
      Content latest \<noteq> lastTelegraphContent p \<and>
      pushTelegraphData news p =
        ([TelegraphUpdate latest], p\<lparr>lastTelegraphContent := Content latest\<rparr>))"
  by (auto simp: pushTelegraphData_def split: option.splits sum.splits list.splits)

lemma pushTelegraphRun_trace:
  "pushTelegraphRun inputs p = (evs, p') \<Longrightarrow>
   distinct_adj (lastTelegraphContent p # telegraphContents evs) \<and>
   lastTelegraphContent p' = last (lastTelegraphContent p # telegraphContents evs)"
proof (induction inputs arbitrary: p evs p')
  case Nil
  then show ?case by simp
next
  case (Cons news rest)
  obtain e1 p1 where step: "pushTelegraphData news p = (e1, p1)"
    by (cases "pushTelegraphData news p")
  obtain e2 p2 where run: "pushTelegraphRun rest p1 = (e2, p2)"
    by (cases "pushTelegraphRun rest p1")
  from Cons.prems step run have evs: "evs = e1 @ e2" and p': "p' = p2"
    by simp_all
  note ih = Cons.IH [OF run]
  from pushTelegraphData_cases [of news p] show ?case
  proof
    assume "pushTelegraphData news p = ([], p)"
    with step have "e1 = []" "p1 = p" by simp_all
    with ih evs p' show ?thesis by simp
  next
    assume "\<exists>latest rest. news = Some (Inr (latest # rest)) \<and>
      Content latest \<noteq> lastTelegraphContent p \<and>
      pushTelegraphData news p =
        ([TelegraphUpdate latest], p\<lparr>lastTelegraphContent := Content latest\<rparr>)"
    then obtain latest where new: "Content latest \<noteq> lastTelegraphContent p"
      and eq: "pushTelegraphData news p =
        ([TelegraphUpdate latest], p\<lparr>lastTelegraphContent := Content latest\<rparr>)"
      by blast
    with step have e1: "e1 = [TelegraphUpdate latest]"
      and p1: "p1 = p\<lparr>lastTelegraphContent := Content latest\<rparr>" by simp_all
    from ih p1 have "distinct_adj (Content latest # telegraphContents e2)"
      and "lastTelegraphContent p2 = last (Content latest # telegraphContents e2)"
      by simp_all
    with new evs e1 p' show ?thesis by simp
  qed
qed

text \<open>
  C10. Over any sequence of news pushes, from any state of the pusher, no two news events
  in a row carry the same content, and the first one differs from the content that the
  pusher had recorded before; the pusher ends with the content of the last event
  recorded. Each push looks at the first item of the fetched list only, and emits it
  exactly when its content differs from the recorded one, recording it.
\<close>

theorem C10_no_repeated_telegraph:
  "distinct_adj (lastTelegraphContent p #
     telegraphContents (fst (pushTelegraphRun inputs p))) \<and>
   lastTelegraphContent (snd (pushTelegraphRun inputs p)) =
     last (lastTelegraphContent p # telegraphContents (fst (pushTelegraphRun inputs p))) \<and>
   pushTelegraphData (Some (Inr (latest # older))) p =
     (if Content latest = lastTelegraphContent p then ([], p)
      else ([TelegraphUpdate latest], p\<lparr>lastTelegraphContent := Content latest\<rparr>))"
  using pushTelegraphRun_trace [of inputs p "fst (pushTelegraphRun inputs p)"
      "snd (pushTelegraphRun inputs p)"]
  by (simp add: pushTelegraphData_def)

subsection \<open>Candle push\<close>

text \<open>The concrete candle read, step by step.\<close>

lemma localDays_jan2:
  assumes "1704124800 \<le> s" and "s < 1704211200"
  shows "localDays (at_cst s) = 19724"
proof -
  have "s + 28800 = 86400 * 19724 + (s - 1704124800)"
    by simp
  moreover have "0 \<le> s - 1704124800" and "s - 1704124800 < 86400"
    using assms by simp_all
  ultimately have "(s + 28800) div 86400 = 19724"
    by (metis div_pos_pos_trivial div_mult_self2 add.commute add_0 zero_neq_numeral)
  then show ?thesis
    by (simp add: localDays_def localSeconds_def at_cst_def Second_def)
qed

lemma civil_19724: "civil 19724 = (2024, 1, 2)"
  by code_simp

lemma Format_date_jan2:
  "1704124800 \<le> s \<Longrightarrow> s < 1704211200 \<Longrightarrow> Format_date (at_cst s) = ''2024-01-02''"
  by (simp add: Format_date_def localDays_jan2 civil_19724 padZero_def showNat_eval)

lemma parse_raw_0931: "parseKLineItem plain raw_0931 = kline_0931\<lparr>Avg := 0\<rparr>"
  by (simp add: parseKLineItem_def raw_0931_def kline_0931_def plain_simps)

lemma onDay_0931: "onDay ''2024-01-02'' (kline_0931\<lparr>Avg := 0\<rparr>)"
  by (simp add: onDay_def kline_0931_def)

lemma filter_0931:
  assumes "1704124800 \<le> s" and "s < 1704211200"
  shows "filterTodayKLines (at_cst s) [kline_0931\<lparr>Avg := 0\<rparr>] =
    Inr [kline_0931\<lparr>Avg := 0\<rparr>]"
  apply (simp only: filterTodayKLines_def)
  apply (simp only: Format_date_jan2 [OF assms])
  apply (simp only: Let_def)
  apply (simp only: list.simps if_False filter.simps onDay_0931 if_True)
  done

lemma gt64_1200: "gt64 (1200 :: int64) 0"
  by (simp add: gt64_def)

lemma float64_1200: "float64 (1200 :: int64) = 1200"
  by (simp add: float64_def)

lemma avg_0931: "calculateAvgLine [kline_0931\<lparr>Avg := 0\<rparr>] = [kline_0931]"
  by (simp add: calculateAvgLine_def kline_0931_def gt64_1200 float64_1200)

lemma fetch_0931:
  "1704124800 \<le> s \<Longrightarrow> s < 1704211200 \<Longrightarrow>
   fetchKLineData plain up_minute (at_cst s) ''sh600000'' ''1m'' 5 = Inr [kline_0931]"
  by (simp add: fetchKLineData_def up_minute_def parseKLineData_def parse_raw_0931
      filter_0931 avg_0931)

lemma key_0931: "klineCacheKey ''sh600000'' ''1m'' 5 = ''sh600000:1m:5''"
  by (simp add: klineCacheKey_def Sprintf_d_def showNat_eval)

lemma get_first:
  "GetKLineData plain up_minute (clock_at 1704159090) NewMarketService ''sh600000'' ''1m'' 5 =
   (Inr [kline_0931], service_0931, [KLineRequest ''sh600000'' ''1'' 5])"
  by (simp add: GetKLineData_def key_0931 clock_at_def fetch_0931 NewMarketService_def
      service_0931_def periodToScale_def)

lemma get_second:
  "GetKLineData plain up_minute (clock_at 1704159091) service_0931 ''sh600000'' ''1m'' 5 =
   (Inr [kline_0931], service_0931, [])"
  by (simp add: GetKLineData_def key_0931 clock_at_def service_0931_def NewMarketService_def
      Since_def at_cst_def Second_def)

lemma pusher_1m_fields:
  "klineSub pusher_1m = \<lparr>Code = ''sh600000'', Period = ''1m''\<rparr>" "lastKLineTime pusher_1m = 0"
  by (simp_all add: pusher_1m_def subscribeKLine_def)

lemma pusher_1m_unchanged: "pusher_1m\<lparr>lastKLineTime := 0\<rparr> = pusher_1m"
  by (simp add: pusher_1m_def subscribeKLine_def)

lemma time_0931: "parseKLineTime plain (Time kline_0931) = 1704187860"
  by (simp add: parseKLineTime_def plain_def plainUnix_def kline_0931_def)

text \<open>The candle whose time does not parse, step by step.\<close>

lemma time_T: "parseKLineTime plain (Time kline_T) = 0"
  by (simp add: parseKLineTime_def plain_def plainUnix_def kline_T_def kline_0931_def)

lemma parse_raw_T: "parseKLineItem plain raw_T = kline_T\<lparr>Avg := 0\<rparr>"
  by (simp add: parseKLineItem_def raw_T_def raw_0931_def kline_T_def kline_0931_def
      plain_simps)

lemma onDay_T: "onDay ''2024-01-02'' (kline_T\<lparr>Avg := 0\<rparr>)"
  by (simp add: onDay_def kline_T_def kline_0931_def)

lemma filter_T:
  assumes "1704124800 \<le> s" and "s < 1704211200"
  shows "filterTodayKLines (at_cst s) [kline_T\<lparr>Avg := 0\<rparr>] = Inr [kline_T\<lparr>Avg := 0\<rparr>]"
  apply (simp only: filterTodayKLines_def)
  apply (simp only: Format_date_jan2 [OF assms])
  apply (simp only: Let_def)
  apply (simp only: list.simps if_False filter.simps onDay_T if_True)
  done

lemma avg_T: "calculateAvgLine [kline_T\<lparr>Avg := 0\<rparr>] = [kline_T]"
  by (simp add: calculateAvgLine_def kline_T_def kline_0931_def gt64_1200 float64_1200)

lemma fetch_T:
  "1704124800 \<le> s \<Longrightarrow> s < 1704211200 \<Longrightarrow>
   fetchKLineData plain up_T (at_cst s) ''sh600000'' ''1m'' 5 = Inr [kline_T]"
  by (simp add: fetchKLineData_def up_T_def up_minute_def parseKLineData_def parse_raw_T
      filter_T avg_T)

lemma get_first_T:
  "GetKLineData plain up_T (clock_at 1704159090) NewMarketService ''sh600000'' ''1m'' 5 =
   (Inr [kline_T], service_T, [KLineRequest ''sh600000'' ''1'' 5])"
  by (simp add: GetKLineData_def key_0931 clock_at_def fetch_T NewMarketService_def
      service_T_def periodToScale_def)

lemma get_second_T:
  "GetKLineData plain up_T (clock_at 1704159093) service_T ''sh600000'' ''1m'' 5 =
   (Inr [kline_T],
    service_T\<lparr>klineCache := (klineCache service_T)(''sh600000:1m:5'' \<mapsto>
      \<lparr>data = [kline_T], timestamp = at_cst 1704159093\<rparr>)\<rparr>,
    [KLineRequest ''sh600000'' ''1'' 5])"
  by (simp add: GetKLineData_def key_0931 clock_at_def service_T_def NewMarketService_def
      Since_def fetch_T periodToScale_def)
    (simp add: at_cst_def Second_def)

text \<open>
  C4, as the claim states it, fails when the newest candle's time is zero. The time
  \<open>2024-01-02T09:31:00\<close> does not parse, so \<open>parseKLineTime\<close> gives 0. After the
  subscription is set, the first push emits the candle and records 0. At the second
  push, three seconds later, the fetch returns the same candle: its time equals the
  recorded one, and the push emits it again.
\<close>

theorem C4_counterexample:
  "parseKLineTime plain (Time kline_T) = 0 \<and>
   pushKLineMinute plain up_T (clock_at 1704159090) NewMarketService pusher_1m =
     ([KLineUpdate ''sh600000'' ''1m'' [kline_T] (Some True)], pusher_1m, service_T,
      [KLineRequest ''sh600000'' ''1'' 5]) \<and>
   lastKLineTime pusher_1m = parseKLineTime plain (Time kline_T) \<and>
   fst (GetKLineData plain up_T (clock_at 1704159093) service_T ''sh600000'' ''1m'' 5) =
     Inr [kline_T] \<and>
   fst (pushKLineMinute plain up_T (clock_at 1704159093) service_T pusher_1m) =
     [KLineUpdate ''sh600000'' ''1m'' [kline_T] (Some True)]"
  by (simp add: pushKLineMinute_def pusher_1m_fields get_first_T get_second_T time_T
      pusher_1m_unchanged)

text \<open>
  C4, amended. Setting the subscription to a code and a period stores them and resets
  the recorded time to zero. For a subscription to one-minute candles whose fetch returns
  at least one candle: when the recorded time is not zero and the newest candle has that
  time, the push emits no event; when the newest candle's time differs from the recorded
  one, or the recorded time is zero (after the subscription was set or reset, and also
  after a push of a candle whose time is zero), the push emits exactly one event,
  carrying the newest candle alone and marked incremental; in each case the newest
  candle's time is recorded.
\<close>

theorem C4_incremental_candle_push:
  assumes "Code (klineSub p) \<noteq> []" and "Period (klineSub p) = ''1m''"
    and "GetKLineData sl up clk ms (Code (klineSub p)) ''1m'' 5 = (Inr klines, ms', reqs)"
    and "klines \<noteq> []"
  shows "(lastKLineTime p \<noteq> 0 \<and> parseKLineTime sl (Time (last klines)) = lastKLineTime p \<longrightarrow>
            fst (pushKLineMinute sl up clk ms p) = []) \<and>
         (lastKLineTime p = 0 \<or> parseKLineTime sl (Time (last klines)) \<noteq> lastKLineTime p \<longrightarrow>
            fst (pushKLineMinute sl up clk ms p) =
              [KLineUpdate (Code (klineSub p)) ''1m'' [last klines] (Some True)]) \<and>
         lastKLineTime (fst (snd (pushKLineMinute sl up clk ms p))) =
           parseKLineTime sl (Time (last klines)) \<and>
         (code \<noteq> [] \<and> period \<noteq> [] \<longrightarrow>
            klineSub (subscribeKLine code period q) = \<lparr>Code = code, Period = period\<rparr> \<and>
            lastKLineTime (subscribeKLine code period q) = 0)"
  using assms by (simp add: pushKLineMinute_def subscribeKLine_def Let_def)

text \<open>
  The pusher had recorded the time of the 9:31 candle for its old subscription. After
  the subscription is set, the push emits that candle and records its time; the next
  push, a second later, finds the same candle and emits nothing.
\<close>

theorem C4_witness:
  "lastKLineTime pusher_old = parseKLineTime plain (Time kline_0931) \<and>
   klineSub pusher_1m = \<lparr>Code = ''sh600000'', Period = ''1m''\<rparr> \<and>
   lastKLineTime pusher_1m = 0 \<and>
   fst (pushKLineMinute plain up_minute (clock_at 1704159090) NewMarketService pusher_1m) =
     [KLineUpdate ''sh600000'' ''1m'' [kline_0931] (Some True)] \<and>
   lastKLineTime (fst (snd (pushKLineMinute plain up_minute (clock_at 1704159090)
          NewMarketService pusher_1m))) = 1704187860 \<and>
   fst (pushKLineMinute plain up_minute (clock_at 1704159091) service_0931
          (pusher_1m\<lparr>lastKLineTime := 1704187860\<rparr>)) = []"
  using C4_incremental_candle_push [of pusher_1m plain up_minute "clock_at 1704159090"
      NewMarketService "[kline_0931]" service_0931 "[KLineRequest ''sh600000'' ''1'' 5]"
      "''sh600000''" "''1m''" pusher_old]
    C4_incremental_candle_push [of "pusher_1m\<lparr>lastKLineTime := 1704187860\<rparr>" plain up_minute
      "clock_at 1704159091" service_0931 "[kline_0931]" service_0931 "[]"
      "''sh600000''" "''1m''" pusher_old]
  by (simp add: pusher_1m_fields get_first get_second time_0931 pusher_old_def
      NewMarketDataPusher_def)

subsection \<open>Quote and order book parsing\<close>

lemma split_600000: "Split payload_600000 CHR '','' = parts_600000"
  by code_simp

lemma fields_600000: "parseStockFields plain ''sh600000'' parts_600000 = Inr stock_600000"
  by (simp add: parseStockFields_def parts_600000_def stock_600000_def plain_floats plain_ints)

lemma levelStep_eq:
  "base + 1 + i * 2 < length parts \<Longrightarrow>
   levelStep sl parts base items i =
     items @ (if levelPrice sl parts base i > 0 then [rawLevel sl parts base i] else [])"
  by (simp add: levelStep_def levelPrice_def levelSize_def rawLevel_def Let_def)

lemma foldl_levelStep:
  "\<forall>i \<in> set is. base + 1 + i * 2 < length parts \<Longrightarrow>
   foldl (levelStep sl parts base) items is =
     items @ map (rawLevel sl parts base) (filter (\<lambda>i. levelPrice sl parts base i > 0) is)"
  by (induction "is" arbitrary: items) (simp_all add: levelStep_eq)

lemma parseBids_eq:
  "20 \<le> length parts \<Longrightarrow>
   parseBids sl parts = map (rawLevel sl parts 10) (filter (\<lambda>i. levelPrice sl parts 10 i > 0) [0..<5])"
  by (simp add: parseBids_def foldl_levelStep)

lemma parseAsks_eq:
  "30 \<le> length parts \<Longrightarrow>
   parseAsks sl parts = map (rawLevel sl parts 20) (filter (\<lambda>i. levelPrice sl parts 20 i > 0) [0..<5])"
  by (simp add: parseAsks_def foldl_levelStep)

lemma priceAndSize_totalsLoop:
  "map priceAndSize (totalsLoop mx t items) = map priceAndSize items"
  by (induction items arbitrary: t) (simp_all add: priceAndSize_def Let_def)

lemma priceAndSize_totals:
  "map priceAndSize (calculateOrderBookTotals items) = map priceAndSize items"
  by (simp add: calculateOrderBookTotals_def priceAndSize_totalsLoop)

lemma priceAndSize_rawLevels:
  "map (priceAndSize \<circ> rawLevel sl parts base)
     (filter (\<lambda>i. levelPrice sl parts base i > 0) [0..<5]) =
   pricedLevels sl parts base"
  by (simp add: pricedLevels_def priceAndSize_def rawLevel_def comp_def)

lemmas level_eval = levelPrice_def levelSize_def rawLevel_def level_def upt_5
  plain_floats plain_ints plain_zero lots

lemma bids_600000:
  "parseBids plain parts_600000 =
   [level 10.04 5 0 0, level 10.03 3 0 0, level 10.02 2 0 0, level 10.01 1 0 0, level 10 9 0 0]"
  by (simp add: parseBids_eq parts_600000_def level_eval)

lemma asks_600000:
  "parseAsks plain parts_600000 =
   [level 10.05 4 0 0, level 10.06 6 0 0, level 10.07 7 0 0, level 10.08 8 0 0, level 10.09 10 0 0]"
  by (simp add: parseAsks_eq parts_600000_def level_eval)

lemma bids_gap:
  "parseBids plain parts_gap =
   [level 10.03 3 0 0, level 10.02 2 0 0, level 10.01 1 0 0, level 10 9 0 0]"
  by (simp add: parseBids_eq parts_gap_def parts_600000_def level_eval)

lemma asks_gap: "parseAsks plain parts_gap = parseAsks plain parts_600000"
  by (simp add: parseAsks_eq parts_gap_def parts_600000_def levelPrice_def rawLevel_def
      levelSize_def upt_5)

lemma fields_gap: "parseStockFields plain ''sh600000'' parts_gap = Inr stock_600000"
  by (simp add: parseStockFields_def parts_gap_def parts_600000_def stock_600000_def
      plain_floats plain_ints)

lemmas totals_eval = calculateOrderBookTotals_def maxSizeOf_def gt64_def float64_def level_def

lemma totals_bids_600000:
  "calculateOrderBookTotals (parseBids plain parts_600000) = Bids book_600000"
  by (simp add: bids_600000 book_600000_def totals_eval)

lemma totals_asks_600000:
  "calculateOrderBookTotals (parseAsks plain parts_600000) = Asks book_600000"
  by (simp add: asks_600000 book_600000_def totals_eval)

lemma totals_bids_gap:
  "calculateOrderBookTotals (parseBids plain parts_gap) = Bids book_gap"
  by (simp add: bids_gap book_gap_def totals_eval)

lemma asks_book_gap: "Asks book_gap = Asks book_600000"
  by (simp add: book_gap_def book_600000_def)

lemma book_600000_parsed:
  "parseStockWithOrderBook plain ''sh600000'' parts_600000 =
   Inr \<lparr>EmbeddedStock = stock_600000, BookOf = book_600000\<rparr>"
  by (simp add: parseStockWithOrderBook_def fields_600000 totals_bids_600000
      totals_asks_600000)

lemma length_600000: "length parts_600000 = 32"
  by (simp add: parts_600000_def)

text \<open>
  C2, as the claim states it, fails: a level whose price is zero does not end the side.
  In the record \<open>parts_gap\<close> the first bid level has price zero, and the parsed bid side
  holds the four levels after it, starting with the second level of the record.
\<close>

theorem C2_counterexample:
  "ParseFloat plain (parts_gap ! 11) = 0 \<and>
   parseStockWithOrderBook plain ''sh600000'' parts_gap =
     Inr \<lparr>EmbeddedStock = stock_600000, BookOf = book_gap\<rparr> \<and>
   ItemPrice (Bids book_gap ! 0) = ParseFloat plain (parts_gap ! 13) \<and>
   length (Bids book_gap) = 4"
  by (simp add: parseStockWithOrderBook_def fields_gap totals_bids_gap asks_gap
      totals_asks_600000 asks_book_gap)
    (simp add: parts_gap_def parts_600000_def plain_zero plain_floats book_gap_def level_def)

text \<open>
  C2, amended. A level whose price is not positive is left out and the levels after it
  are still parsed: for a record of at least 10 fields the parse succeeds, the bid side
  holds, in order, the price and size of exactly those of the five bid levels whose price
  is positive, and the ask side likewise; a side is empty when the record is too short to
  hold it (fewer than 20 fields for the bids, fewer than 30 for the asks).
\<close>

theorem C2_levels_filtered:
  assumes "10 \<le> length parts"
  shows "\<exists>r. parseStockWithOrderBook sl code parts = Inr r \<and>
     map priceAndSize (Bids (BookOf r)) =
       (if 20 \<le> length parts then pricedLevels sl parts 10 else []) \<and>
     map priceAndSize (Asks (BookOf r)) =
       (if 30 \<le> length parts then pricedLevels sl parts 20 else [])"
proof -
  from assms obtain stock where st: "parseStockFields sl code parts = Inr stock"
    by (simp add: parseStockFields_def Let_def)
  have b: "map priceAndSize (calculateOrderBookTotals (parseBids sl parts)) =
      (if 20 \<le> length parts then pricedLevels sl parts 10 else [])"
    by (simp add: priceAndSize_totals parseBids_eq priceAndSize_rawLevels)
      (simp add: parseBids_def calculateOrderBookTotals_def)
  have a: "map priceAndSize (calculateOrderBookTotals (parseAsks sl parts)) =
      (if 30 \<le> length parts then pricedLevels sl parts 20 else [])"
    by (simp add: priceAndSize_totals parseAsks_eq priceAndSize_rawLevels)
      (simp add: parseAsks_def calculateOrderBookTotals_def)
  show ?thesis
    using st a b by (simp add: parseStockWithOrderBook_def)
qed

theorem C2_witness:
  "10 \<le> length parts_600000 \<and>
   map priceAndSize (Bids book_600000) = pricedLevels plain parts_600000 10 \<and>
   map priceAndSize (Asks book_600000) = pricedLevels plain parts_600000 20"
  using C2_levels_filtered [of parts_600000 plain "''sh600000''"]
  by (simp add: book_600000_parsed length_600000)

text \<open>
  C7. For a record of at least 10 fields the parsed quote has open, previous close and
  price from fields 1, 2 and 3, change equal to price minus previous close, and change
  percent equal to change over previous close times 100 when the previous close is
  positive and 0 otherwise. The record of the scenario parses to open 10.00, previous
  close 9.90 and price 10.05, with a change within a billionth of 0.15 and a change
  percent within a thousandth of 1.515. The derived values are stated within a
  tolerance because the model computes them exactly while \<open>float64\<close> rounds: the code's
  change on this record is 0.15000000000000036.
\<close>

theorem C7_change_and_percent:
  "(10 \<le> length parts \<longrightarrow>
      (\<exists>s. parseStockFields sl code parts = Inr s \<and>
           Open s = ParseFloat sl (parts ! 1) \<and>
           PreClose s = ParseFloat sl (parts ! 2) \<and>
           Price s = ParseFloat sl (parts ! 3) \<and>
           Change s = Price s - PreClose s \<and>
           ChangePercent s =
             (if PreClose s > 0 then (Change s / PreClose s) * 100 else 0))) \<and>
   (\<exists>s. parseStockFields plain ''600000'' (Split payload_600000 CHR '','') = Inr s \<and>
        Open s = 10.00 \<and> PreClose s = 9.90 \<and> Price s = 10.05 \<and>
        \<bar>Change s - 0.15\<bar> < 1 / 10 ^ 9 \<and>
        \<bar>ChangePercent s - 1.515\<bar> < 0.001)"
proof -
  have "parseStockFields plain ''600000'' parts_600000 =
      Inr (stock_600000\<lparr>Symbol := ''600000''\<rparr>)"
    by (simp add: parseStockFields_def parts_600000_def stock_600000_def plain_floats plain_ints)
  then have "\<exists>s. parseStockFields plain ''600000'' (Split payload_600000 CHR '','') = Inr s \<and>
        Open s = 10.00 \<and> PreClose s = 9.90 \<and> Price s = 10.05 \<and>
        \<bar>Change s - 0.15\<bar> < 1 / 10 ^ 9 \<and>
        \<bar>ChangePercent s - 1.515\<bar> < 0.001"
    by (simp add: split_600000 stock_600000_def)
  then show ?thesis
    by (simp add: parseStockFields_def Let_def)
qed

theorem C7_witness:
  "10 \<le> length parts_600000 \<and>
   (\<exists>s. parseStockFields plain ''sh600000'' parts_600000 = Inr s \<and>
        Change s = Price s - PreClose s \<and> PreClose s > 0 \<and>
        ChangePercent s = (Change s / PreClose s) * 100)"
  using C7_change_and_percent [of parts_600000 plain "''sh600000''"]
  by (simp add: length_600000 fields_600000) (simp add: parts_600000_def plain_floats)

subsection \<open>Market data cache\<close>

lemma GetKLineData_fresh:
  assumes "klineCache ms (klineCacheKey code period days) = Some e"
    and "Since (atCheck clk) (timestamp e) < klineCacheTTL ms"
  shows "GetKLineData sl up clk ms code period days = (Inr (data e), ms, [])"
  using assms by (simp add: GetKLineData_def)

lemma GetKLineData_stale:
  assumes "klineCache ms (klineCacheKey code period days) = Some e"
    and "klineCacheTTL ms \<le> Since (atCheck clk) (timestamp e)"
  shows "GetKLineData sl up clk ms code period days =
    (case fetchKLineData sl up (atFetch clk) code period days of
       Inl err \<Rightarrow> (Inl err, ms, [KLineRequest code (periodToScale period) days])
     | Inr d \<Rightarrow>
         (Inr d,
          ms\<lparr>klineCache := (klineCache ms)(klineCacheKey code period days \<mapsto>
                \<lparr>data = d, timestamp = atStore clk\<rparr>)\<rparr>,
          [KLineRequest code (periodToScale period) days]))"
  using assms by (simp add: GetKLineData_def)

lemma GetStockData_fresh:
  assumes "codes \<noteq> []" and "cache ms (stockCacheKey codes) = Some e"
    and "Since (atCheck clk) (timestamp e) < cacheTTL ms"
  shows "GetStockDataWithOrderBook sl up clk ms codes = (Inr (data e), ms, [])"
  using assms by (simp add: GetStockDataWithOrderBook_def)

lemma GetStockData_stale:
  assumes "codes \<noteq> []" and "cache ms (stockCacheKey codes) = Some e"
    and "cacheTTL ms \<le> Since (atCheck clk) (timestamp e)"
  shows "GetStockDataWithOrderBook sl up clk ms codes =
    (case fetchStockDataWithOrderBook sl up codes of
       Inl err \<Rightarrow> (Inl err, ms, [QuoteRequest (Join codes '','')])
     | Inr d \<Rightarrow>
         (Inr d,
          ms\<lparr>cache := (cache ms)(stockCacheKey codes \<mapsto>
                \<lparr>data = d, timestamp = atStore clk\<rparr>)\<rparr>,
          [QuoteRequest (Join codes '','')]))"
  using assms by (simp add: GetStockDataWithOrderBook_def)

text \<open>
  C6. For the candle cache, keyed by code, period and count, and for the quote cache,
  keyed by the sorted and joined code list: a read whose clock is less than the lifetime
  after the entry's timestamp returns the stored payload, leaves the service as it was
  and sends no request upstream; a read at or after the lifetime sends exactly one
  request upstream, and when that fetch returns data, returns the data and stores them
  under the key with the time of storing.
\<close>

theorem C6_cache_ttl:
  "(klineCache ms (klineCacheKey code period days) = Some ke \<and>
    Since (atCheck clk) (timestamp ke) < klineCacheTTL ms \<longrightarrow>
      GetKLineData sl up clk ms code period days = (Inr (data ke), ms, [])) \<and>
   (klineCache ms (klineCacheKey code period days) = Some ke \<and>
    klineCacheTTL ms \<le> Since (atCheck clk) (timestamp ke) \<longrightarrow>
      snd (snd (GetKLineData sl up clk ms code period days)) =
        [KLineRequest code (periodToScale period) days] \<and>
      (fetchKLineData sl up (atFetch clk) code period days = Inr kd \<longrightarrow>
         GetKLineData sl up clk ms code period days =
           (Inr kd,
            ms\<lparr>klineCache := (klineCache ms)(klineCacheKey code period days \<mapsto>
                  \<lparr>data = kd, timestamp = atStore clk\<rparr>)\<rparr>,
            [KLineRequest code (periodToScale period) days]))) \<and>
   (codes \<noteq> [] \<and> cache ms (stockCacheKey codes) = Some se \<and>
    Since (atCheck clk) (timestamp se) < cacheTTL ms \<longrightarrow>
      GetStockDataWithOrderBook sl up clk ms codes = (Inr (data se), ms, [])) \<and>
   (codes \<noteq> [] \<and> cache ms (stockCacheKey codes) = Some se \<and>
    cacheTTL ms \<le> Since (atCheck clk) (timestamp se) \<longrightarrow>
      snd (snd (GetStockDataWithOrderBook sl up clk ms codes)) =
        [QuoteRequest (Join codes '','')] \<and>
      (fetchStockDataWithOrderBook sl up codes = Inr sd \<longrightarrow>
         GetStockDataWithOrderBook sl up clk ms codes =
           (Inr sd,
            ms\<lparr>cache := (cache ms)(stockCacheKey codes \<mapsto>
                  \<lparr>data = sd, timestamp = atStore clk\<rparr>)\<rparr>,
            [QuoteRequest (Join codes '','')])))"
  by (auto simp: GetKLineData_fresh GetKLineData_stale GetStockData_fresh GetStockData_stale
      split: sum.splits)

lemma key_quote: "stockCacheKey [''sh600000''] = ''sh600000''"
  by (simp add: stockCacheKey_def sort_Strings_def)

lemma fetch_quote:
  "fetchStockDataWithOrderBook plain up_minute [''sh600000''] = Inr [quote_600000]"
  by (simp add: fetchStockDataWithOrderBook_def up_minute_def split_600000 length_600000
      book_600000_parsed quote_600000_def)
    (simp add: payload_600000_def)

lemma since_eval: "Since (at_cst a) (at_cst b) = (a - b) * Second"
  by (simp add: Since_def at_cst_def algebra_simps)

theorem C6_witness:
  "GetKLineData plain up_minute (clock_at 1704159091) service_0931 ''sh600000'' ''1m'' 5 =
     (Inr [kline_0931], service_0931, []) \<and>
   GetKLineData plain up_minute (clock_at 1704159092) service_0931 ''sh600000'' ''1m'' 5 =
     (Inr [kline_0931],
      service_0931\<lparr>klineCache := (klineCache service_0931)(''sh600000:1m:5'' \<mapsto>
        \<lparr>data = [kline_0931], timestamp = at_cst 1704159092\<rparr>)\<rparr>,
      [KLineRequest ''sh600000'' ''1'' 5]) \<and>
   GetStockDataWithOrderBook plain up_minute (clock_at 1704159091) service_quote [''sh600000''] =
     (Inr [quote_600000], service_quote, []) \<and>
   GetStockDataWithOrderBook plain up_minute (clock_at 1704159092) service_quote [''sh600000''] =
     (Inr [quote_600000],
      service_quote\<lparr>cache := (cache service_quote)(''sh600000'' \<mapsto>
        \<lparr>data = [quote_600000], timestamp = at_cst 1704159092\<rparr>)\<rparr>,
      [QuoteRequest ''sh600000''])"
  using C6_cache_ttl [where ms = service_0931 and code = "''sh600000''" and period = "''1m''"
      and days = 5 and clk = "clock_at 1704159091" and sl = plain and up = up_minute
      and ke = "\<lparr>data = [kline_0931], timestamp = at_cst 1704159090\<rparr>"
      and kd = "[kline_0931]" and codes = "[''sh600000'']"
      and se = "\<lparr>data = [quote_600000], timestamp = at_cst 1704159090\<rparr>"
      and sd = "[quote_600000]"]
    C6_cache_ttl [where ms = service_0931 and code = "''sh600000''" and period = "''1m''"
      and days = 5 and clk = "clock_at 1704159092" and sl = plain and up = up_minute
      and ke = "\<lparr>data = [kline_0931], timestamp = at_cst 1704159090\<rparr>"
      and kd = "[kline_0931]" and codes = "[''sh600000'']"
      and se = "\<lparr>data = [quote_600000], timestamp = at_cst 1704159090\<rparr>"
      and sd = "[quote_600000]"]
    C6_cache_ttl [where ms = service_quote and code = "''sh600000''" and period = "''1m''"
      and days = 5 and clk = "clock_at 1704159091" and sl = plain and up = up_minute
      and ke = "\<lparr>data = [kline_0931], timestamp = at_cst 1704159090\<rparr>"
      and kd = "[kline_0931]" and codes = "[''sh600000'']"
      and se = "\<lparr>data = [quote_600000], timestamp = at_cst 1704159090\<rparr>"
      and sd = "[quote_600000]"]
    C6_cache_ttl [where ms = service_quote and code = "''sh600000''" and period = "''1m''"
      and days = 5 and clk = "clock_at 1704159092" and sl = plain and up = up_minute
      and ke = "\<lparr>data = [kline_0931], timestamp = at_cst 1704159090\<rparr>"
      and kd = "[kline_0931]" and codes = "[''sh600000'']"
      and se = "\<lparr>data = [quote_600000], timestamp = at_cst 1704159090\<rparr>"
      and sd = "[quote_600000]"]
  by (simp add: key_0931 key_quote fetch_0931 fetch_quote since_eval clock_at_def
      service_0931_def service_quote_def NewMarketService_def Second_def periodToScale_def)

subsection \<open>Trading calendar\<close>

lemma In_at_cst: "In (at_cst s) 28800 = at_cst s"
  by (simp add: In_def at_cst_def)

lemma Time_Hour_cst: "Time_Hour (at_cst s) = (s + 28800) mod 86400 div 3600"
  by (simp add: Time_Hour_def localSeconds_def at_cst_def Second_def)

lemma Time_Minute_cst: "Time_Minute (at_cst s) = (s + 28800) mod 3600 div 60"
  by (simp add: Time_Minute_def localSeconds_def at_cst_def Second_def)

lemma Time_Year_jan2:
  "1704124800 \<le> s \<Longrightarrow> s < 1704211200 \<Longrightarrow> Time_Year (at_cst s) = 2024"
  by (simp add: Time_Year_def localDays_jan2 civil_19724)

lemma Time_Weekday_jan2:
  "1704124800 \<le> s \<Longrightarrow> s < 1704211200 \<Longrightarrow> Time_Weekday (at_cst s) = 2"
  by (simp add: Time_Weekday_def localDays_jan2)

lemma minute_bounds: "0 \<le> minuteOfDay now \<and> minuteOfDay now < 24 * 60"
proof -
  define y where "y = localSeconds (In now (8 * 60 * 60))"
  define x where "x = y mod 86400"
  have x: "0 \<le> x" "x < 86400" by (simp_all add: x_def)
  have "(3600 :: int) dvd 86400" by simp
  then have m: "y mod 3600 = x mod 3600"
    unfolding x_def by (simp add: mod_mod_cancel)
  have "minuteOfDay now = y mod 86400 div 3600 * 60 + y mod 3600 div 60"
    unfolding minuteOfDay_def Time_Hour_def Time_Minute_def y_def by (rule refl)
  then have eq: "minuteOfDay now = x div 3600 * 60 + x mod 3600 div 60"
    by (simp add: m x_def)
  have "0 \<le> x div 3600" using x by (simp add: pos_imp_zdiv_nonneg_iff)
  moreover have "0 \<le> x mod 3600 div 60" by (simp add: pos_imp_zdiv_nonneg_iff)
  moreover have "x div 3600 \<le> 23" using x by simp
  moreover have "x mod 3600 div 60 \<le> 59"
  proof -
    have "x mod 3600 < 3600" by simp
    then show ?thesis by simp
  qed
  ultimately show ?thesis using eq by simp
qed

lemma isTradeDay_jan2:
  assumes "1704124800 \<le> s" and "s < 1704211200"
  shows "isTradeDay up (at_cst s) calendar_2024 = ((True, []), calendar_2024)"
  using assms
  by (simp add: isTradeDay_def Time_Weekday_jan2 Saturday_def Sunday_def getHolidayStatus_def
      Format_date_jan2 Time_Year_jan2 loadHolidayData_def calendar_2024_def)

text \<open>
  C1, amended. The minute of the day on the UTC+8 clock lies between 0 and 1439, and the
  status is \<open>closed\<close> on a day that is no trading day and otherwise \<open>pre_market\<close> before
  9:15, \<open>pre_market\<close> again from 9:15 to 9:30 (the call auction has no status of its own,
  only its own status text), \<open>trading\<close> from 9:30 to 11:30, \<open>lunch_break\<close> from 11:30 to
  13:00, \<open>trading\<close> from 13:00 to 15:00 and \<open>closed\<close> from 15:00 on; every boundary minute
  belongs to the later interval. The zone in which the clock reading arrives does not
  matter.
\<close>

theorem C1_phase_by_minute:
  "0 \<le> minuteOfDay now \<and> minuteOfDay now < 24 * 60 \<and>
   Status (fst (GetMarketStatus up now cal)) =
     (if \<not> fst (fst (isTradeDay up (In now (8 * 60 * 60)) cal)) then ''closed''
      else if minuteOfDay now < 9 * 60 + 15 then ''pre_market''
      else if minuteOfDay now < 9 * 60 + 30 then ''pre_market''
      else if minuteOfDay now < 11 * 60 + 30 then ''trading''
      else if minuteOfDay now < 13 * 60 then ''lunch_break''
      else if minuteOfDay now < 15 * 60 then ''trading''
      else ''closed'') \<and>
   IsTradeDay (fst (GetMarketStatus up now cal)) =
     fst (fst (isTradeDay up (In now (8 * 60 * 60)) cal)) \<and>
   GetMarketStatus up (In now zone) cal = GetMarketStatus up now cal"
proof -
  have zone: "GetMarketStatus up (In now zone) cal = GetMarketStatus up now cal"
    by (simp add: GetMarketStatus_def In_def)
  obtain b name cal1 where t: "isTradeDay up (In now (8 * 60 * 60)) cal = ((b, name), cal1)"
    by (metis surj_pair)
  have "Status (fst (GetMarketStatus up now cal)) =
     (if \<not> b then ''closed''
      else if minuteOfDay now < 9 * 60 + 15 then ''pre_market''
      else if minuteOfDay now < 9 * 60 + 30 then ''pre_market''
      else if minuteOfDay now < 11 * 60 + 30 then ''trading''
      else if minuteOfDay now < 13 * 60 then ''lunch_break''
      else if minuteOfDay now < 15 * 60 then ''trading''
      else ''closed'')"
    and "IsTradeDay (fst (GetMarketStatus up now cal)) = b"
    using t by (simp_all add: GetMarketStatus_def minuteOfDay_def Let_def)
  with t zone minute_bounds show ?thesis by simp
qed

lemma minuteOfDay_cst:
  "minuteOfDay (at_cst s) = (s + 28800) mod 86400 div 3600 * 60 + (s + 28800) mod 3600 div 60"
  by (simp add: minuteOfDay_def In_at_cst Time_Hour_cst Time_Minute_cst)

lemma isTradeDay_saturday:
  "isTradeDay up (at_cst 1704506400) cal = ((False, text_weekend), cal)"
  by (simp add: isTradeDay_def Time_Weekday_def localDays_def localSeconds_def at_cst_def
      Second_def Saturday_def)

text \<open>
  C1, as the claim states it, fails between 9:15 and 9:30: at 9:15 on Tuesday 2 January
  2024, a trading day, the specification's phase is \<open>pre_market_auction\<close> and the status
  of the market service is \<open>pre_market\<close>.
\<close>

theorem C1_counterexample:
  "fst (fst (isTradeDay up_minute (In (at_cst 1704158100) (8 * 60 * 60)) calendar_2024)) \<and>
   minuteOfDay (at_cst 1704158100) = 9 * 60 + 15 \<and>
   specPhase (minuteOfDay (at_cst 1704158100)) = ''pre_market_auction'' \<and>
   Status (fst (GetMarketStatus up_minute (at_cst 1704158100) calendar_2024)) = ''pre_market''"
  by (simp add: In_at_cst isTradeDay_jan2 minuteOfDay_cst specPhase_def GetMarketStatus_def
      Time_Hour_cst Time_Minute_cst)

text \<open>The ten boundary minutes of 2 January 2024, and a Saturday morning.\<close>

theorem C1_witness:
  "Status (fst (GetMarketStatus up_minute (at_cst 1704158040) calendar_2024)) = ''pre_market'' \<and>
   Status (fst (GetMarketStatus up_minute (at_cst 1704158100) calendar_2024)) = ''pre_market'' \<and>
   Status (fst (GetMarketStatus up_minute (at_cst 1704158940) calendar_2024)) = ''pre_market'' \<and>
   Status (fst (GetMarketStatus up_minute (at_cst 1704159000) calendar_2024)) = ''trading'' \<and>
   Status (fst (GetMarketStatus up_minute (at_cst 1704166140) calendar_2024)) = ''trading'' \<and>
   Status (fst (GetMarketStatus up_minute (at_cst 1704166200) calendar_2024)) = ''lunch_break'' \<and>
   Status (fst (GetMarketStatus up_minute (at_cst 1704171540) calendar_2024)) = ''lunch_break'' \<and>
   Status (fst (GetMarketStatus up_minute (at_cst 1704171600) calendar_2024)) = ''trading'' \<and>
   Status (fst (GetMarketStatus up_minute (at_cst 1704178740) calendar_2024)) = ''trading'' \<and>
   Status (fst (GetMarketStatus up_minute (at_cst 1704178800) calendar_2024)) = ''closed'' \<and>
   Status (fst (GetMarketStatus up_minute (at_cst 1704506400) calendar_2024)) = ''closed''"
  using C1_phase_by_minute [of "at_cst 1704158040" up_minute calendar_2024]
    C1_phase_by_minute [of "at_cst 1704158100" up_minute calendar_2024]
    C1_phase_by_minute [of "at_cst 1704158940" up_minute calendar_2024]
    C1_phase_by_minute [of "at_cst 1704159000" up_minute calendar_2024]
    C1_phase_by_minute [of "at_cst 1704166140" up_minute calendar_2024]
    C1_phase_by_minute [of "at_cst 1704166200" up_minute calendar_2024]
    C1_phase_by_minute [of "at_cst 1704171540" up_minute calendar_2024]
    C1_phase_by_minute [of "at_cst 1704171600" up_minute calendar_2024]
    C1_phase_by_minute [of "at_cst 1704178740" up_minute calendar_2024]
    C1_phase_by_minute [of "at_cst 1704178800" up_minute calendar_2024]
    C1_phase_by_minute [of "at_cst 1704506400" up_minute calendar_2024]
  by (simp add: In_at_cst isTradeDay_jan2 isTradeDay_saturday minuteOfDay_cst)

text \<open>
  C5, as the claim states it, fails: on Tuesday 2 January 2024, with no holiday table in
  memory, no file and the CDN failing, loading the year's holidays returns the error,
  and the trading-day resolution returns a classification, a trading day, and no error.
\<close>

theorem C5_counterexample:
  "Time_Weekday (at_cst 1704158100) \<noteq> Saturday \<and>
   Time_Weekday (at_cst 1704158100) \<noteq> Sunday \<and>
   loadHolidayData up_minute (Time_Year (at_cst 1704158100)) calendar_empty =
     (Inl (Failure ''offline''), calendar_empty) \<and>
   fst (isTradeDay up_minute (at_cst 1704158100) calendar_empty) = (True, [])"
  by (simp add: Time_Weekday_jan2 Time_Year_jan2 Saturday_def Sunday_def isTradeDay_def
      getHolidayStatus_def loadHolidayData_def fetchHolidayData_def calendar_empty_def
      up_minute_def)

text \<open>
  C5, amended. For a date that is not at a weekend and whose year's holidays are neither
  in memory nor on disk while the CDN fails: loading the holidays returns the error to
  \<open>getHolidayStatus\<close>, which logs a warning and answers as for a date that is not listed,
  and \<open>isTradeDay\<close> classifies the date as a trading day with no holiday name; the
  resolution has no error result.
\<close>

theorem C5_unavailable_holidays_logged:
  assumes "Time_Weekday date \<noteq> Saturday" and "Time_Weekday date \<noteq> Sunday"
    and "holidayCacheData cal (Time_Year date) = None"
    and "holidayFiles cal (Time_Year date) = None"
    and "holidayCDN up (Time_Year date) = Inl e"
  shows "loadHolidayData up (Time_Year date) cal = (Inl e, cal) \<and>
    getHolidayStatus up date cal =
      ((False, False, []), warn (WarnHolidayLoad (Time_Year date) e) cal) \<and>
    isTradeDay up date cal = ((True, []), warn (WarnHolidayLoad (Time_Year date) e) cal)"
  using assms
  by (simp add: isTradeDay_def getHolidayStatus_def loadHolidayData_def fetchHolidayData_def
      Let_def)

theorem C5_witness:
  "Time_Weekday (at_cst 1704158100) \<noteq> Saturday \<and>
   Time_Weekday (at_cst 1704158100) \<noteq> Sunday \<and>
   holidayCacheData calendar_empty 2024 = None \<and> holidayFiles calendar_empty 2024 = None \<and>
   holidayCDN up_minute 2024 = Inl (Failure ''offline'') \<and>
   isTradeDay up_minute (at_cst 1704158100) calendar_empty =
     ((True, []), warn (WarnHolidayLoad 2024 (Failure ''offline'')) calendar_empty)"
  using C5_unavailable_holidays_logged [of "at_cst 1704158100" calendar_empty up_minute
      "Failure ''offline''"]
  by (simp add: Time_Weekday_jan2 Time_Year_jan2 Saturday_def Sunday_def calendar_empty_def
      up_minute_def)

subsection \<open>Order book fingerprint\<close>
































subsection \<open>The window of trading dates\<close>

lemma noHolidayData_logged [simp]:
  "noHolidayData up (cal\<lparr>logged := ws\<rparr>) = noHolidayData up cal"
  by (simp add: noHolidayData_def)

lemma load_unavailable:
  assumes "noHolidayData up cal"
  shows "\<exists>e. loadHolidayData up year cal = (Inl e, cal)"
proof -
  from assms obtain e where "holidayCDN up year = Inl e"
    unfolding noHolidayData_def by blast
  with assms show ?thesis
    by (simp add: noHolidayData_def loadHolidayData_def fetchHolidayData_def)
qed

lemma preload_unavailable:
  "noHolidayData up cal \<Longrightarrow> \<exists>ws. preloadYears up years cal = cal\<lparr>logged := ws\<rparr>"
proof (induction years arbitrary: cal)
  case Nil
  have "cal = cal\<lparr>logged := logged cal\<rparr>" by simp
  then show ?case by (metis preloadYears.simps(1))
next
  case (Cons year years)
  from load_unavailable [OF Cons.prems] obtain e
    where l: "loadHolidayData up year cal = (Inl e, cal)" by blast
  have "noHolidayData up (warn (WarnHolidayLoad year e) cal)"
    using Cons.prems by (simp add: warn_def)
  from Cons.IH [OF this] obtain ws
    where "preloadYears up years (warn (WarnHolidayLoad year e) cal) =
      (warn (WarnHolidayLoad year e) cal)\<lparr>logged := ws\<rparr>" by blast
  with l show ?case by (auto simp: warn_def)
qed

lemma isTradeDate_unavailable:
  assumes "noHolidayData up cal"
    and "Time_Weekday date \<noteq> Saturday" and "Time_Weekday date \<noteq> Sunday"
  shows "\<exists>ws. isTradeDate up date cal = (True, cal\<lparr>logged := ws\<rparr>)"
proof -
  from load_unavailable [OF assms(1)] obtain e
    where "loadHolidayData up (Time_Year date) cal = (Inl e, cal)" by blast
  with assms(2,3) show ?thesis
    by (auto simp: isTradeDate_def isTradeDay_def getHolidayStatus_def warn_def Let_def)
qed

lemma fetchTradeDates_no_error: "\<exists>dates. fst (fetchTradeDates up today days cal) = Inr dates"
  by (simp add: fetchTradeDates_def Let_def split: prod.splits)

lemma isTradeDate_state:
  assumes "noHolidayData up cal"
  shows "\<exists>b ws. isTradeDate up date cal = (b, cal\<lparr>logged := ws\<rparr>)"
proof (cases "Time_Weekday date = Saturday \<or> Time_Weekday date = Sunday")
  case True
  then have "isTradeDate up date cal = (False, cal\<lparr>logged := logged cal\<rparr>)"
    by (auto simp: isTradeDate_def isTradeDay_def)
  then show ?thesis by blast
next
  case False
  with isTradeDate_unavailable [OF assms, of date] show ?thesis by blast
qed

lemma collect_state:
  "noHolidayData up cal \<Longrightarrow> \<exists>ds ws. collectTradeDates up dates cal = (ds, cal\<lparr>logged := ws\<rparr>)"
proof (induction dates arbitrary: cal)
  case Nil
  have "cal = cal\<lparr>logged := logged cal\<rparr>" by simp
  then show ?case by (metis collectTradeDates.simps(1))
next
  case (Cons date dates)
  from isTradeDate_state [OF Cons.prems] obtain b ws
    where t: "isTradeDate up date cal = (b, cal\<lparr>logged := ws\<rparr>)" by blast
  have "noHolidayData up (cal\<lparr>logged := ws\<rparr>)" using Cons.prems by simp
  from Cons.IH [OF this] obtain ds ws'
    where "collectTradeDates up dates (cal\<lparr>logged := ws\<rparr>) = (ds, cal\<lparr>logged := ws'\<rparr>)"
    by auto
  with t have "collectTradeDates up (date # dates) cal =
      ((if b then Format_date date # ds else ds), cal\<lparr>logged := ws'\<rparr>)"
    by simp
  then show ?case by blast
qed

lemma collect_head:
  assumes "noHolidayData up cal"
    and "Time_Weekday date \<noteq> Saturday" and "Time_Weekday date \<noteq> Sunday"
  shows "\<exists>rest ws. collectTradeDates up (date # dates) cal =
    (Format_date date # rest, cal\<lparr>logged := ws\<rparr>)"
proof -
  from isTradeDate_unavailable [OF assms] obtain ws
    where t: "isTradeDate up date cal = (True, cal\<lparr>logged := ws\<rparr>)" by blast
  have "noHolidayData up (cal\<lparr>logged := ws\<rparr>)" using assms(1) by simp
  from collect_state [OF this, of dates] obtain ds ws'
    where "collectTradeDates up dates (cal\<lparr>logged := ws\<rparr>) = (ds, cal\<lparr>logged := ws'\<rparr>)"
    by auto
  with t have "collectTradeDates up (date # dates) cal =
      (Format_date date # ds, cal\<lparr>logged := ws'\<rparr>)"
    by simp
  then show ?thesis by blast
qed

lemma daysBack_head: "0 < days \<Longrightarrow> \<exists>rest. daysBack today days = today # rest"
  by (simp add: daysBack_def upt_conv_Cons AddDate_days_def)

lemma fetch_head:
  assumes "noHolidayData up cal"
    and "Time_Weekday today \<noteq> Saturday" and "Time_Weekday today \<noteq> Sunday"
    and "0 < days"
  shows "\<exists>rest ws. fetchTradeDates up today days cal =
    (Inr (Format_date today # rest), cal\<lparr>logged := ws\<rparr>)"
proof -
  from daysBack_head [OF assms(4)] obtain ds where d: "daysBack today days = today # ds"
    by blast
  from preload_unavailable [OF assms(1)] obtain ws
    where p: "preloadYears up (remdups (map Time_Year (daysBack today days))) cal =
      cal\<lparr>logged := ws\<rparr>" by blast
  have "noHolidayData up (cal\<lparr>logged := ws\<rparr>)" using assms(1) by simp
  from collect_head [OF this assms(2,3), of ds] obtain rest ws'
    where "collectTradeDates up (today # ds) (cal\<lparr>logged := ws\<rparr>) =
      (Format_date today # rest, cal\<lparr>logged := ws'\<rparr>)" by auto
  then have c: "collectTradeDates up (daysBack today days) (cal\<lparr>logged := ws\<rparr>) =
      (Format_date today # rest, cal\<lparr>logged := ws'\<rparr>)"
    by (simp only: d)
  have "fetchTradeDates up today days cal =
      (Inr (Format_date today # rest), cal\<lparr>logged := ws'\<rparr>)"
    unfolding fetchTradeDates_def Let_def p c by simp
  then show ?thesis by blast
qed

lemma filter_first: "filterTradeDates (x # rest) 1 = Inr [x]"
  by (cases rest) (simp_all add: filterTradeDates_def)

lemma GetTradeDates_stale_unavailable:
  assumes "noHolidayData up cal"
    and "tradeDatesFile cal = Some c" and "TradeDates c \<noteq> []"
    and "24 * Hour \<le> Since (atCheck clk) (UpdatedAt c)"
    and "Time_Weekday (atFetch clk) \<noteq> Saturday" and "Time_Weekday (atFetch clk) \<noteq> Sunday"
  shows "fst (GetTradeDates up clk 1 cal) = Inr [Format_date (atFetch clk)] \<and>
    (diskWritable cal \<longrightarrow>
       map_option (\<lambda>c. (take 1 (TradeDates c), UpdatedAt c))
         (tradeDatesFile (snd (GetTradeDates up clk 1 cal))) =
       Some ([Format_date (atFetch clk)], atStore clk))"
proof -
  from fetch_head [OF assms(1,5,6), of 90] obtain rest ws
    where f: "fetchTradeDates up (atFetch clk) 90 cal =
      (Inr (Format_date (atFetch clk) # rest), cal\<lparr>logged := ws\<rparr>)" by auto
  with assms(2,3,4) show ?thesis
    by (simp add: GetTradeDates_def loadTradeDatesCache_def saveTradeDatesCache_def
        filter_first warn_def Let_def)
qed

lemma calendar_stale_unavailable: "noHolidayData up_minute calendar_stale"
  by (simp add: noHolidayData_def calendar_stale_def calendar_empty_def up_minute_def)

lemma load_stale:
  "loadHolidayData up_minute year calendar_stale = (Inl (Failure ''offline''), calendar_stale)"
  by (simp add: loadHolidayData_def fetchHolidayData_def calendar_stale_def
      calendar_empty_def up_minute_def)

text \<open>
  C9. The code does not do what the claim says. \<open>fetchTradeDates\<close> returns a list on every
  path, so the branch of \<open>GetTradeDates\<close> that falls back to an old cache is never taken.
  With the cache two days old and no holiday data to be had, the refresh cannot tell the
  holidays, and \<open>GetTradeDates\<close> asked for one day returns today, 2 January 2024, computed
  from the weekdays alone, where the claim has the first date of the old cache, 29
  December 2023; the new list also replaces the cache file.
\<close>

theorem C9_stale_cache_replaced:
  "(\<exists>dates. fst (fetchTradeDates up today days cal) = Inr dates) \<and>
   tradeDatesFile calendar_stale =
     Some \<lparr>TradeDates = [''2023-12-29'', ''2023-12-28''], UpdatedAt = at_cst 1703986290\<rparr> \<and>
   24 * Hour \<le> Since (atCheck (clock_at 1704159090)) (at_cst 1703986290) \<and>
   fst (loadHolidayData up_minute 2023 calendar_stale) = Inl (Failure ''offline'') \<and>
   fst (loadHolidayData up_minute 2024 calendar_stale) = Inl (Failure ''offline'') \<and>
   filterTradeDates [''2023-12-29'', ''2023-12-28''] 1 = Inr [''2023-12-29''] \<and>
   fst (GetTradeDates up_minute (clock_at 1704159090) 1 calendar_stale) = Inr [''2024-01-02''] \<and>
   map_option (\<lambda>c. (take 1 (TradeDates c), UpdatedAt c))
     (tradeDatesFile (snd (GetTradeDates up_minute (clock_at 1704159090) 1 calendar_stale))) =
     Some ([''2024-01-02''], at_cst 1704159090)"
proof -
  have cached: "tradeDatesFile calendar_stale =
      Some \<lparr>TradeDates = [''2023-12-29'', ''2023-12-28''], UpdatedAt = at_cst 1703986290\<rparr>"
    by (simp add: calendar_stale_def)
  have stale: "24 * Hour \<le> Since (atCheck (clock_at 1704159090)) (at_cst 1703986290)"
    by (simp add: Hour_def Second_def Since_def clock_at_def at_cst_def)
  have day: "Time_Weekday (atFetch (clock_at 1704159090)) \<noteq> Saturday"
    "Time_Weekday (atFetch (clock_at 1704159090)) \<noteq> Sunday"
    by (simp_all add: clock_at_def Time_Weekday_jan2 Saturday_def Sunday_def)
  have writable: "diskWritable calendar_stale"
    by (simp add: calendar_stale_def calendar_empty_def)
  have today: "Format_date (atFetch (clock_at 1704159090)) = ''2024-01-02''"
    by (simp add: clock_at_def Format_date_jan2)
  have store: "atStore (clock_at 1704159090) = at_cst 1704159090"
    by (simp add: clock_at_def)
  from GetTradeDates_stale_unavailable [OF calendar_stale_unavailable cached _ _ day]
  have "fst (GetTradeDates up_minute (clock_at 1704159090) 1 calendar_stale) =
      Inr [''2024-01-02'']"
    and "map_option (\<lambda>c. (take 1 (TradeDates c), UpdatedAt c))
      (tradeDatesFile (snd (GetTradeDates up_minute (clock_at 1704159090) 1 calendar_stale))) =
      Some ([''2024-01-02''], at_cst 1704159090)"
    using stale writable by (simp_all add: today store)
  with cached stale fetchTradeDates_no_error [of up today days cal] show ?thesis
    by (simp add: load_stale filter_first)
qed

end
